theory Spec2Isabelle
  imports Main "HOL-Library.Word" "HOL-Library.AList" "HOL-Library.Char_ord" "HOL-Library.List_Lexorder"
begin

unbundle bit_operations_syntax

section \<open>Advertise handler: relay fan-out with bounded retries (handler.js)\<close>

text \<open>
  The transport's error classification (\<open>Errors.classify\<close>, \<open>Errors.isFatal\<close> of the
  tchannel library) is not part of this repository: the outcome of an attempt carries
  the answers the handler asks for.  \<open>o_err\<close> tells whether the \<open>err\<close> argument of
  \<open>onResponse\<close> is truthy, \<open>o_classify\<close> is \<open>Errors.classify(err)\<close>, \<open>o_isFatal\<close> is
  \<open>Errors.isFatal(err)\<close>; \<open>o_response\<close> is optional (\<open>undefined\<close> is \<open>None\<close>).
\<close>

record relay_response =
  r_ok :: bool

record attempt_outcome =
  o_err :: bool
  o_classify :: string
  o_isFatal :: bool
  o_response :: "relay_response option"

text \<open>The three configuration fields are set with \<open>options.x || DEFAULT\<close>: an absent
  or zero option gives the default.\<close>

record hyperbahn_handler =
  relayAdTimeout :: nat
  relayAdRetryTime :: nat
  maxRelayAdAttempts :: nat

definition MAX_RELAY_AD_ATTEMPTS :: nat where "MAX_RELAY_AD_ATTEMPTS = 2"
definition RELAY_AD_RETRY_TIME :: nat where "RELAY_AD_RETRY_TIME = 1 * 1000"
definition RELAY_AD_TIMEOUT :: nat where "RELAY_AD_TIMEOUT = 500"

definition js_or :: "nat option \<Rightarrow> nat \<Rightarrow> nat" where
  "js_or opt dflt = (case opt of None \<Rightarrow> dflt | Some n \<Rightarrow> if n = 0 then dflt else n)"

definition HyperbahnHandler :: "nat option \<Rightarrow> nat option \<Rightarrow> nat option \<Rightarrow> hyperbahn_handler" where
  "HyperbahnHandler optTimeout optRetryTime optMaxAttempts =
     \<lparr> relayAdTimeout = js_or optTimeout RELAY_AD_TIMEOUT,
       relayAdRetryTime = js_or optRetryTime RELAY_AD_RETRY_TIME,
       maxRelayAdAttempts = js_or optMaxAttempts MAX_RELAY_AD_ATTEMPTS \<rparr>"

datatype log_level = LogError | LogWarn | LogInfo

text \<open>What one \<open>sendRelay\<close> call does, in order: requests sent (numbered by the
  \<open>attempts\<close> counter), timers armed with their delay, the log line of \<open>logError\<close>, and
  the callback with its error argument (\<open>None\<close> is \<open>null\<close>).\<close>

datatype relay_event =
    Attempt nat
  | SetTimeout nat
  | Logged log_level
  | Callback "string option"

definition responseOk :: "attempt_outcome \<Rightarrow> bool" where
  "responseOk out = (case o_response out of None \<Rightarrow> False | Some r \<Rightarrow> r_ok r)"

definition retryable :: "attempt_outcome \<Rightarrow> bool" where
  "retryable out = (o_err out \<and> (o_classify out = ''NetworkError'' \<or> o_classify out = ''Timeout''))"

definition logError :: "attempt_outcome \<Rightarrow> relay_event" where
  "logError out = (if o_isFatal out then Logged LogError else Logged LogWarn)"

text \<open>\<open>tryRequest\<close>: \<open>net k\<close> is what the network answers to the \<open>k\<close>-th request (a failed
  \<open>waitForIdentified\<close> reaches \<open>onResponse\<close> with the error and no response).  The
  argument \<open>attempts\<close> is the closure variable before \<open>attempts++\<close>.\<close>

function tryRequest :: "hyperbahn_handler \<Rightarrow> (nat \<Rightarrow> attempt_outcome) \<Rightarrow> nat \<Rightarrow> relay_event list" where
  "tryRequest h net attempts =
     (let attempts' = attempts + 1; out = net attempts' in
      Attempt attempts' #
      (if responseOk out then [Callback None]
       else if attempts' \<le> maxRelayAdAttempts h \<and> retryable out
       then SetTimeout (relayAdRetryTime h) # tryRequest h net attempts'
       else [logError out, Callback None]))"
  by pat_completeness auto
termination
  by (relation "measure (\<lambda>(h, net, attempts). Suc (maxRelayAdAttempts h) - attempts)") auto

definition sendRelay :: "hyperbahn_handler \<Rightarrow> (nat \<Rightarrow> attempt_outcome) \<Rightarrow> relay_event list" where
  "sendRelay h net = tryRequest h net 0"

text \<open>The shape of a finished fan-out that made \<open>n\<close> requests, the first one numbered
  \<open>a + 1\<close>: each but the last is followed by the retry timer, the last by the callback,
  after the log line when it failed.\<close>

definition relayTrace :: "hyperbahn_handler \<Rightarrow> (nat \<Rightarrow> attempt_outcome) \<Rightarrow> nat \<Rightarrow> nat \<Rightarrow> relay_event list" where
  "relayTrace h net a n =
     concat (map (\<lambda>k. [Attempt k, SetTimeout (relayAdRetryTime h)]) [Suc a..<n]) @
     Attempt n # (if responseOk (net n) then [Callback None] else [logError (net n), Callback None])"

definition allTimeouts :: "nat \<Rightarrow> attempt_outcome" where
  "allTimeouts k = \<lparr> o_err = True, o_classify = ''Timeout'', o_isFatal = False, o_response = None \<rparr>"

text \<open>Three more networks: every request fails with an error that the transport
  classifies \<open>UnexpectedError\<close> and calls fatal; every request is declined, which is
  not fatal; the first request fails with a network error and the second succeeds.\<close>

definition fatalError :: "nat \<Rightarrow> attempt_outcome" where
  "fatalError k =
     \<lparr> o_err = True, o_classify = ''UnexpectedError'', o_isFatal = True, o_response = None \<rparr>"

definition declined :: "nat \<Rightarrow> attempt_outcome" where
  "declined k =
     \<lparr> o_err = True, o_classify = ''Declined'', o_isFatal = False, o_response = None \<rparr>"

definition networkErrorThenOk :: "nat \<Rightarrow> attempt_outcome" where
  "networkErrorThenOk k =
     (if k = 1
      then \<lparr> o_err = True, o_classify = ''NetworkError'', o_isFatal = False, o_response = None \<rparr>
      else \<lparr> o_err = False, o_classify = [], o_isFatal = False,
             o_response = Some \<lparr> r_ok = True \<rparr> \<rparr>)"

section \<open>Circuit registry (circuits.js)\<close>

text \<open>
  \<open>circuits.circuitsByServiceName[serviceName].circuitsByCallerName[callerName]
  .circuitsByEndpointName[endpointName]\<close>: three levels of JavaScript objects, each
  an association list in insertion order, as \<open>Object.keys\<close> lists them.  Every level is
  keyed by the name with a dollar sign in front.  The state machine of a circuit
  (states.js) is not part of this repository; a new circuit is put in the healthy
  state.
\<close>

datatype circuit_state = HealthyState | UnhealthyState

record circuit =
  c_callerName :: string
  c_serviceName :: string
  c_endpointName :: string
  c_state :: circuit_state

type_synonym endpoint_circuits = "(string \<times> circuit) list"
type_synonym service_circuits = "(string \<times> endpoint_circuits) list"

record circuits =
  circuitsByServiceName :: "(string \<times> service_circuits) list"

definition Circuits :: circuits where
  "Circuits = \<lparr> circuitsByServiceName = [] \<rparr>"

definition Circuit :: "string \<Rightarrow> string \<Rightarrow> string \<Rightarrow> circuit" where
  "Circuit callerName serviceName endpointName =
     \<lparr> c_callerName = (if callerName = [] then ''no-cn'' else callerName),
       c_serviceName = serviceName,
       c_endpointName = endpointName,
       c_state = HealthyState \<rparr>"

definition EndpointCircuits_getCircuit ::
  "string \<Rightarrow> string \<Rightarrow> string \<Rightarrow> endpoint_circuits \<Rightarrow> circuit \<times> endpoint_circuits" where
  "EndpointCircuits_getCircuit callerName serviceName endpointName byEndpoint =
     (case map_of byEndpoint (CHR ''$'' # endpointName) of
        Some circuit \<Rightarrow> (circuit, byEndpoint)
      | None \<Rightarrow>
          (let circuit = Circuit callerName serviceName endpointName
           in (circuit, AList.update (CHR ''$'' # endpointName) circuit byEndpoint)))"

definition ServiceCircuits_getCircuit ::
  "string \<Rightarrow> string \<Rightarrow> string \<Rightarrow> service_circuits \<Rightarrow> circuit \<times> service_circuits" where
  "ServiceCircuits_getCircuit callerName serviceName endpointName byCaller =
     (let circuits = (case map_of byCaller (CHR ''$'' # callerName) of
                        Some cs \<Rightarrow> cs | None \<Rightarrow> []);
          (circuit, circuits') =
             EndpointCircuits_getCircuit callerName serviceName endpointName circuits
      in (circuit, AList.update (CHR ''$'' # callerName) circuits' byCaller))"

definition getCircuit :: "string \<Rightarrow> string \<Rightarrow> string \<Rightarrow> circuits \<Rightarrow> circuit \<times> circuits" where
  "getCircuit callerName serviceName endpointName self =
     (let circuits = (case map_of (circuitsByServiceName self) (CHR ''$'' # serviceName) of
                        Some cs \<Rightarrow> cs | None \<Rightarrow> []);
          (circuit, circuits') =
             ServiceCircuits_getCircuit callerName serviceName endpointName circuits
      in (circuit,
          self\<lparr> circuitsByServiceName :=
                  AList.update (CHR ''$'' # serviceName) circuits' (circuitsByServiceName self) \<rparr>))"

text \<open>\<open>updateServices\<close>: the loop runs over the keys that \<open>Object.keys\<close> returned
  before the first deletion, and asks the ring view about each key as it is stored.\<close>

fun updateServices_loop ::
  "(string \<Rightarrow> bool) \<Rightarrow> string list \<Rightarrow> (string \<times> service_circuits) list
     \<Rightarrow> (string \<times> service_circuits) list" where
  "updateServices_loop isExitFor [] byService = byService"
| "updateServices_loop isExitFor (serviceName # rest) byService =
     updateServices_loop isExitFor rest
       (if \<not> isExitFor serviceName then AList.delete serviceName byService else byService)"

definition updateServices :: "(string \<Rightarrow> bool) \<Rightarrow> circuits \<Rightarrow> circuits" where
  "updateServices isExitFor self =
     self\<lparr> circuitsByServiceName :=
             updateServices_loop isExitFor (map fst (circuitsByServiceName self))
               (circuitsByServiceName self) \<rparr>"

text \<open>The services that have a circuit subtree: those a request for which finds an
  entry, that is under the key \<open>'$' + serviceName\<close>.\<close>

definition hasCircuitsFor :: "circuits \<Rightarrow> string \<Rightarrow> bool" where
  "hasCircuitsFor self serviceName =
     (map_of (circuitsByServiceName self) (CHR ''$'' # serviceName) \<noteq> None)"

section \<open>Discovery: encoding host-ports (handler.js, convertHosts)\<close>

text \<open>
  JavaScript numbers are modelled as \<open>int option\<close>: \<open>None\<close> is \<open>NaN\<close>, and \<open>Some n\<close> is
  the integer \<open>n\<close> (exact below \<open>2^53\<close> in absolute value, which covers every sum of four
  values that each fit 32 bits).  \<open>undefined\<close> array elements are \<open>None\<close> of the element
  type.
\<close>

type_synonym js_number = "int option"

text \<open>\<open>s.split(c)\<close> with a one-character separator: never an empty array.\<close>

fun split_on :: "char \<Rightarrow> string \<Rightarrow> string list" where
  "split_on c [] = [[]]"
| "split_on c (x # xs) =
     (if x = c then [] # split_on c xs
      else (case split_on c xs of [] \<Rightarrow> [[x]] | w # ws \<Rightarrow> (x # w) # ws))"

definition nth_opt :: "'a list \<Rightarrow> nat \<Rightarrow> 'a option" where
  "nth_opt xs i = (if i < length xs then Some (xs ! i) else None)"

definition isDigit :: "char \<Rightarrow> bool" where
  "isDigit c = (c \<in> set ''0123456789'')"

definition digitVal :: "char \<Rightarrow> int" where
  "digitVal c = int (of_char c) - 48"

definition isWhiteSpace :: "char \<Rightarrow> bool" where
  "isWhiteSpace c = (of_char c \<in> {9, 10, 11, 12, 13, 32 :: nat})"

definition digitsValue :: "string \<Rightarrow> int" where
  "digitsValue ds = foldl (\<lambda>acc c. acc * 10 + digitVal c) 0 ds"

text \<open>\<open>parseInt(s, 10)\<close>: leading white space is skipped, one sign is read, then the
  longest run of decimal digits; without a digit the result is \<open>NaN\<close>.  An \<open>undefined\<close>
  argument is converted to the string \<open>"undefined"\<close>, which has no digit.\<close>

definition parseInt10 :: "string option \<Rightarrow> js_number" where
  "parseInt10 arg =
     (case arg of
        None \<Rightarrow> None
      | Some s \<Rightarrow>
          (let t = dropWhile isWhiteSpace s;
               (sign, u) = (case t of
                              [] \<Rightarrow> (1, [])
                            | c # cs \<Rightarrow> if c = CHR ''-'' then (- 1, cs)
                                        else if c = CHR ''+'' then (1, cs)
                                        else (1 :: int, t));
               ds = takeWhile isDigit u
           in if ds = [] then None else Some (sign * digitsValue ds)))"

text \<open>\<open>x << k\<close>: the left operand goes through \<open>ToInt32\<close> (\<open>NaN\<close> becomes 0, any other
  number is reduced modulo \<open>2^32\<close>), the count is taken modulo 32, and the 32-bit result
  is read as a signed integer.\<close>

definition toInt32 :: "js_number \<Rightarrow> 32 word" where
  "toInt32 x = (case x of None \<Rightarrow> 0 | Some n \<Rightarrow> word_of_int n)"

definition js_shl :: "js_number \<Rightarrow> nat \<Rightarrow> js_number" where
  "js_shl x k = Some (sint (push_bit (k mod 32) (toInt32 x)))"

definition js_add :: "js_number \<Rightarrow> js_number \<Rightarrow> js_number" where
  "js_add x y = (case (x, y) of (Some a, Some b) \<Rightarrow> Some (a + b) | _ \<Rightarrow> None)"

record discovered_peer =
  peer_port :: js_number
  peer_ipv4 :: js_number

definition convertHost :: "string \<Rightarrow> discovered_peer" where
  "convertHost host =
     (let strs = split_on CHR '':'' host;
          port = parseInt10 (nth_opt strs 1);
          strs' = (case strs of [] \<Rightarrow> [] | s0 # _ \<Rightarrow> split_on CHR ''.'' s0)
      in \<lparr> peer_port = port,
           peer_ipv4 =
             js_add (js_add (js_add (parseInt10 (nth_opt strs' 3))
                                    (js_shl (parseInt10 (nth_opt strs' 2)) 8))
                            (js_shl (parseInt10 (nth_opt strs' 1)) 16))
                    (js_shl (parseInt10 (nth_opt strs' 0)) 24) \<rparr>)"

definition convertHosts :: "string list \<Rightarrow> discovered_peer list" where
  "convertHosts hosts = map convertHost hosts"

text \<open>The host-ports the claims speak of: four decimal octets and a decimal port.\<close>

fun showNat :: "nat \<Rightarrow> string" where
  "showNat n =
     (if n < 10 then [''0123456789'' ! n]
      else showNat (n div 10) @ [''0123456789'' ! (n mod 10)])"

definition hostPortString :: "nat \<Rightarrow> nat \<Rightarrow> nat \<Rightarrow> nat \<Rightarrow> nat \<Rightarrow> string" where
  "hostPortString a b c d p =
     showNat a @ ''.'' @ showNat b @ ''.'' @ showNat c @ ''.'' @ showNat d @ '':'' @ showNat p"

text \<open>The unsigned 32-bit big-endian value of four octets.\<close>

definition ipv4Unsigned :: "nat \<Rightarrow> nat \<Rightarrow> nat \<Rightarrow> nat \<Rightarrow> int" where
  "ipv4Unsigned a b c d = int a * 2 ^ 24 + int b * 2 ^ 16 + int c * 2 ^ 8 + int d"

section \<open>Service dispatch handler (service-proxy.js): state\<close>

text \<open>
  JavaScript objects used as dictionaries are association lists in insertion order
  (\<open>Object.keys\<close> is \<open>map fst\<close>); they are read with \<open>map_of\<close> and written with
  \<open>AList.update\<close> and \<open>AList.delete\<close>.  Timestamps are integers, and a stored
  timestamp is truthy when it is not zero.  Log lines are left out, except where a
  function does nothing else on a path.
\<close>

datatype js_error = TypeError string

datatype proxy_mode = Exit | Forward

datatype drain_goal = DRAIN_GOAL_CLOSE_PEER | DRAIN_GOAL_CLOSE_DRAINED

datatype drain_callback = ThenDeleteIt | ThenResetPeer

text \<open>The argument of \<open>peer.drain\<close>; the transport keeps it as \<open>peer.draining\<close> until the
  drain is cleared.\<close>

record drain =
  d_goal :: drain_goal
  d_reason :: string
  d_direction :: string
  d_timeout :: int
  d_callback :: drain_callback

text \<open>A peer of the transport's peer table.  \<open>connectedOut\<close> is what
  \<open>peer.isConnected('out')\<close> answers; \<open>connectToCalls\<close> counts the calls of
  \<open>peer.connectTo()\<close>.\<close>

record peer =
  draining :: "drain option"
  connectedOut :: bool
  connectToCalls :: nat
  serviceProxyServices :: "string list"

definition newPeer :: peer where
  "newPeer = \<lparr> draining = None, connectedOut = False, connectToCalls = 0,
               serviceProxyServices = [] \<rparr>"

text \<open>A sub-channel of the top channel.  \<open>serviceProxyMode\<close> is \<open>None\<close> on sub-channels
  that the dispatcher did not create (\<open>hyperbahn\<close>, \<open>ringpop\<close>, \<open>autobahn\<close>).  The peers of
  a sub-channel are the host-ports it holds; the peer objects live in the peer table of
  the top channel, shared by all sub-channels.  \<open>relayCircuits\<close> tells whether the relay
  handler was given the circuit registry.\<close>

record sub_channel =
  serviceProxyMode :: "proxy_mode option"
  sc_peers :: "string list"
  preferConnectionDirectionOut :: bool
  relayCircuits :: bool

type_synonym index = "(string \<times> (string \<times> int) list) list"

record prune_info =
  lastRefresh :: int
  pruneReason :: string

text \<open>Modelled from the spec: \<open>PartialRange\<close> (partial_range.js is not among the
  sources).  A range is computed from the sorted relays and the sorted workers of a
  service and this relay's host-port; it is valid only if this relay appears in the
  relays list; \<open>compute\<close> with a \<open>null\<close> argument keeps the list it has; \<open>addWorker\<close>
  and \<open>removeWorker\<close> change the workers and recompute.  The window \<open>affineWorkers\<close>
  that the computation yields is a parameter of the model.\<close>

record partial_range =
  relayHostPort :: string
  pr_minPeersPerWorker :: nat
  pr_minPeersPerRelay :: nat
  pr_relays :: "string list"
  pr_workers :: "string list"

definition PartialRange :: "string \<Rightarrow> nat \<Rightarrow> nat \<Rightarrow> partial_range" where
  "PartialRange hostPort minPerWorker minPerRelay =
     \<lparr> relayHostPort = hostPort, pr_minPeersPerWorker = minPerWorker,
       pr_minPeersPerRelay = minPerRelay, pr_relays = [], pr_workers = [] \<rparr>"

definition pr_compute :: "string list option \<Rightarrow> string list option \<Rightarrow> partial_range \<Rightarrow> partial_range" where
  "pr_compute relays workers pr =
     pr\<lparr> pr_relays := (case relays of None \<Rightarrow> pr_relays pr | Some r \<Rightarrow> r),
         pr_workers := (case workers of None \<Rightarrow> pr_workers pr | Some w \<Rightarrow> w) \<rparr>"

definition pr_isValid :: "partial_range \<Rightarrow> bool" where
  "pr_isValid pr = (relayHostPort pr \<in> set (pr_relays pr))"

definition pr_addWorker :: "string \<Rightarrow> partial_range \<Rightarrow> partial_range" where
  "pr_addWorker hostPort pr =
     pr\<lparr> pr_workers := (if hostPort \<in> set (pr_workers pr) then pr_workers pr
                         else insort hostPort (pr_workers pr)) \<rparr>"

definition pr_removeWorker :: "string \<Rightarrow> partial_range \<Rightarrow> partial_range" where
  "pr_removeWorker hostPort pr = pr\<lparr> pr_workers := removeAll hostPort (pr_workers pr) \<rparr>"

text \<open>The rate limiter (rate_limiter.js) is not among the sources either.  It is an
  object with hidden state: the model keeps the list of calls made on it, oldest first,
  and takes the answers of its decision functions and its limits as functions of the
  calls made before.\<close>

datatype rl_call =
    IncrementEdgeCounter string
  | CreateServiceCounter string
  | CreateKillSwitchServiceCounter string
  | ShouldKillSwitchTotalRequest string
  | ShouldKillSwitchService string
  | IncrementKillSwitchTotalCounter string
  | IncrementKillSwitchServiceCounter string
  | ShouldRateLimitTotalRequest string
  | ShouldRateLimitService string
  | IncrementTotalCounter string
  | IncrementServiceCounter string
  | RemoveServiceCounter string
  | RemoveKillSwitchCounter string

text \<open>What the dispatcher is given from outside: the ring view (\<open>egressNodes\<close>: the keys
  of \<open>exitsFor(serviceName)\<close> and \<open>isExitFor\<close>), the host-port of the top channel, the
  window of a partial range, the rate limiter's answers, and, for a comparison of a
  loop counter with a string, the number of counters \<open>i = 0, 1, ...\<close> for which
  \<open>i < s\<close> holds in JavaScript (0 when \<open>s\<close> is not numeric).\<close>

record env =
  egress_exitsFor :: "string \<Rightarrow> string list"
  egress_isExitFor :: "string \<Rightarrow> bool"
  channel_hostPort :: string
  affineWorkersOf :: "partial_range \<Rightarrow> string list"
  rl_answer :: "rl_call list \<Rightarrow> rl_call \<Rightarrow> bool"
  rl_totalRpsLimit :: "rl_call list \<Rightarrow> int"
  rl_rpsLimitForService :: "rl_call list \<Rightarrow> string \<Rightarrow> int"
  js_countBelow :: "string \<Rightarrow> nat"

record dispatcher =
  subChannels :: "(string \<times> sub_channel) list"
  peers :: "(string \<times> peer) list"
  closedChannels :: "string list"
  circuitsEnabled :: bool
  circuits :: "circuits option"
  rateLimiter :: "rl_call list"
  rateLimiterEnabled :: bool
  partialAffinityEnabled :: bool
  minPeersPerWorker :: nat
  minPeersPerRelay :: nat
  drainTimeout :: int
  servicePurgePeriod :: "int option"
  servicePurgerInterval :: int
  peerReaperInterval :: int
  peerPrunerInterval :: int
  relaysFor :: "(string \<times> string list) list"
  partialRanges :: "(string \<times> partial_range) list"
  exitServices :: "(string \<times> int) list"
  connectedServicePeers :: index
  connectedPeerServices :: index
  peersToReap :: index
  knownPeers :: index
  peersToPrune :: "(string \<times> prune_info) list"
  blockingTable :: "(string \<times> int) list option"
  blockingTableRemoteConfig :: "(string \<times> int) list option"
  roleTransitions :: "(string \<times> proxy_mode option \<times> proxy_mode) list"

definition SERVICE_PURGE_PERIOD :: int where "SERVICE_PURGE_PERIOD = 5 * 60 * 1000"
definition DEFAULT_MIN_PEERS_PER_WORKER :: nat where "DEFAULT_MIN_PEERS_PER_WORKER = 5"
definition DEFAULT_MIN_PEERS_PER_RELAY :: nat where "DEFAULT_MIN_PEERS_PER_RELAY = 5"
definition DEFAULT_REAP_PEERS_PERIOD :: int where "DEFAULT_REAP_PEERS_PERIOD = 5 * 60 * 1000"
definition DEFAULT_PRUNE_PEERS_PERIOD :: int where "DEFAULT_PRUNE_PEERS_PERIOD = 2 * 60 * 1000"
definition DEFAULT_DRAIN_TIMEOUT :: int where "DEFAULT_DRAIN_TIMEOUT = 30 * 1000"

text \<open>The options of the constructor that the modelled state depends on; \<open>None\<close> is
  an option that was not given.\<close>

record options =
  opt_servicePurgePeriod :: "int option"
  opt_reapPeersPeriod :: "int option"
  opt_prunePeersPeriod :: "int option"
  opt_drainTimeout :: "int option"
  opt_minPeersPerWorker :: "nat option"
  opt_minPeersPerRelay :: "nat option"
  opt_partialAffinityEnabled :: bool
  opt_rateLimiterEnabled :: bool
  opt_circuitsEnabled :: bool

definition int_or :: "int option \<Rightarrow> int \<Rightarrow> int" where
  "int_or opt dflt = (case opt of None \<Rightarrow> dflt | Some n \<Rightarrow> if n = 0 then dflt else n)"

text \<open>The constructor, for a top channel with the given sub-channels and peers.  It
  passes \<open>options.servicePurgePeriod || SERVICE_PURGE_PERIOD\<close> to the purger as its
  interval.  The field \<open>self.servicePurgePeriod\<close>, which the purger's callback reads,
  is assigned neither here nor in any method: it stays \<open>undefined\<close>.\<close>

definition ServiceDispatchHandler ::
  "options \<Rightarrow> (string \<times> sub_channel) list \<Rightarrow> (string \<times> peer) list \<Rightarrow> dispatcher" where
  "ServiceDispatchHandler opts chans ps =
     \<lparr> subChannels = chans,
       peers = ps,
       closedChannels = [],
       circuitsEnabled = opt_circuitsEnabled opts,
       circuits = (if opt_circuitsEnabled opts then Some Circuits else None),
       rateLimiter = [],
       rateLimiterEnabled = opt_rateLimiterEnabled opts,
       partialAffinityEnabled = opt_partialAffinityEnabled opts,
       minPeersPerWorker = js_or (opt_minPeersPerWorker opts) DEFAULT_MIN_PEERS_PER_WORKER,
       minPeersPerRelay = js_or (opt_minPeersPerRelay opts) DEFAULT_MIN_PEERS_PER_RELAY,
       drainTimeout = int_or (opt_drainTimeout opts) DEFAULT_DRAIN_TIMEOUT,
       servicePurgePeriod = None,
       servicePurgerInterval = int_or (opt_servicePurgePeriod opts) SERVICE_PURGE_PERIOD,
       peerReaperInterval = int_or (opt_reapPeersPeriod opts) DEFAULT_REAP_PEERS_PERIOD,
       peerPrunerInterval = int_or (opt_prunePeersPeriod opts) DEFAULT_PRUNE_PEERS_PERIOD,
       relaysFor = [],
       partialRanges = [],
       exitServices = [],
       connectedServicePeers = [],
       connectedPeerServices = [],
       peersToReap = [],
       knownPeers = [],
       peersToPrune = [],
       blockingTable = None,
       blockingTableRemoteConfig = None,
       roleTransitions = [] \<rparr>"

definition defaultOptions :: options where
  "defaultOptions =
     \<lparr> opt_servicePurgePeriod = None, opt_reapPeersPeriod = None, opt_prunePeersPeriod = None,
       opt_drainTimeout = None, opt_minPeersPerWorker = None, opt_minPeersPerRelay = None,
       opt_partialAffinityEnabled = False, opt_rateLimiterEnabled = False,
       opt_circuitsEnabled = False \<rparr>"

subsection \<open>Two-level indices\<close>

definition truthy :: "int \<Rightarrow> bool" where
  "truthy v = (v \<noteq> 0)"

definition addIndexEntry :: "index \<Rightarrow> string \<Rightarrow> string \<Rightarrow> int \<Rightarrow> index" where
  "addIndexEntry idx keya keyb v =
     (let level = (case map_of idx keya of None \<Rightarrow> [] | Some l \<Rightarrow> l)
      in AList.update keya (AList.update keyb v level) idx)"

definition deleteIndexEntry :: "index \<Rightarrow> string \<Rightarrow> string \<Rightarrow> index" where
  "deleteIndexEntry idx keya keyb =
     (case map_of idx keya of
        None \<Rightarrow> idx
      | Some level \<Rightarrow>
          (case map_of level keyb of
             None \<Rightarrow> idx
           | Some v \<Rightarrow>
               if truthy v
               then (let level' = AList.delete keyb level
                     in if level' = [] then AList.delete keya idx
                        else AList.update keya level' idx)
               else idx))"

subsection \<open>Sub-channels and their peers\<close>

definition channelPeers :: "dispatcher \<Rightarrow> string \<Rightarrow> string list" where
  "channelPeers self serviceName =
     (case map_of (subChannels self) serviceName of None \<Rightarrow> [] | Some ch \<Rightarrow> sc_peers ch)"

definition channelMode :: "dispatcher \<Rightarrow> string \<Rightarrow> proxy_mode option" where
  "channelMode self serviceName =
     (case map_of (subChannels self) serviceName of None \<Rightarrow> None | Some ch \<Rightarrow> serviceProxyMode ch)"

definition modifyChannel :: "string \<Rightarrow> (sub_channel \<Rightarrow> sub_channel) \<Rightarrow> dispatcher \<Rightarrow> dispatcher" where
  "modifyChannel serviceName f self =
     self\<lparr> subChannels := AList.map_entry serviceName f (subChannels self) \<rparr>"

definition modifyPeer :: "string \<Rightarrow> (peer \<Rightarrow> peer) \<Rightarrow> dispatcher \<Rightarrow> dispatcher" where
  "modifyPeer hostPort f self = self\<lparr> peers := AList.map_entry hostPort f (peers self) \<rparr>"

text \<open>\<open>serviceChannel.peers.add(hostPort)\<close>: the sub-channel takes the peer of the top
  channel's table, which creates it when it has none for the host-port.\<close>

definition subPeers_add :: "string \<Rightarrow> string \<Rightarrow> dispatcher \<Rightarrow> dispatcher" where
  "subPeers_add serviceName hostPort self =
     modifyChannel serviceName
       (\<lambda>ch. ch\<lparr> sc_peers := (if hostPort \<in> set (sc_peers ch) then sc_peers ch
                               else sc_peers ch @ [hostPort]) \<rparr>)
       (self\<lparr> peers := (case map_of (peers self) hostPort of
                           None \<Rightarrow> peers self @ [(hostPort, newPeer)]
                         | Some p \<Rightarrow> peers self) \<rparr>)"

definition subPeers_delete :: "string \<Rightarrow> string \<Rightarrow> dispatcher \<Rightarrow> dispatcher" where
  "subPeers_delete serviceName hostPort self =
     modifyChannel serviceName (\<lambda>ch. ch\<lparr> sc_peers := removeAll hostPort (sc_peers ch) \<rparr>) self"

definition subPeers_clear :: "string \<Rightarrow> dispatcher \<Rightarrow> dispatcher" where
  "subPeers_clear serviceName self = modifyChannel serviceName (\<lambda>ch. ch\<lparr> sc_peers := [] \<rparr>) self"

text \<open>\<open>_getServicePeer(serviceChannel, hostPort)\<close>; the channel is named by its
  service name, the returned peer by its host-port.\<close>

definition u_getServicePeer :: "string \<Rightarrow> string \<Rightarrow> dispatcher \<Rightarrow> dispatcher" where
  "u_getServicePeer serviceName hostPort self =
     modifyPeer hostPort
       (\<lambda>p. p\<lparr> serviceProxyServices := List.insert serviceName (serviceProxyServices p) \<rparr>)
       (if hostPort \<in> set (channelPeers self serviceName) then self
        else subPeers_add serviceName hostPort self)"

definition createServiceChannel :: "env \<Rightarrow> string \<Rightarrow> dispatcher \<Rightarrow> dispatcher" where
  "createServiceChannel e serviceName self =
     (let exitNames = (case map_of (relaysFor self) serviceName of
                         Some names \<Rightarrow> names
                       | None \<Rightarrow> sort (egress_exitsFor e serviceName));
          self1 = (case map_of (relaysFor self) serviceName of
                     Some names \<Rightarrow> self
                   | None \<Rightarrow> self\<lparr> relaysFor := AList.update serviceName exitNames (relaysFor self) \<rparr>);
          isExit = egress_isExitFor e serviceName;
          mode = (if isExit then Exit else Forward);
          ch = \<lparr> serviceProxyMode = Some mode, sc_peers = [],
                 preferConnectionDirectionOut = (mode = Exit),
                 relayCircuits = (mode = Exit \<and> circuitsEnabled self \<and> circuits self \<noteq> None) \<rparr>;
          self2 = self1\<lparr> subChannels := AList.update serviceName ch (subChannels self1) \<rparr>
      in if mode = Forward then fold (u_getServicePeer serviceName) exitNames self2 else self2)"

definition getOrCreateServiceChannel :: "env \<Rightarrow> string \<Rightarrow> dispatcher \<Rightarrow> dispatcher" where
  "getOrCreateServiceChannel e serviceName self =
     (case map_of (subChannels self) serviceName of
        Some ch \<Rightarrow> self
      | None \<Rightarrow> createServiceChannel e serviceName self)"

definition getServicePeer :: "env \<Rightarrow> string \<Rightarrow> string \<Rightarrow> dispatcher \<Rightarrow> dispatcher" where
  "getServicePeer e serviceName hostPort self =
     u_getServicePeer serviceName hostPort (getOrCreateServiceChannel e serviceName self)"

section \<open>Service dispatch handler: peers, advertise and unadvertise\<close>

definition deletePeerIndex :: "string \<Rightarrow> string \<Rightarrow> dispatcher \<Rightarrow> dispatcher" where
  "deletePeerIndex serviceName hostPort self =
     (let self1 = (if partialAffinityEnabled self
                   then self\<lparr> connectedServicePeers :=
                                 deleteIndexEntry (connectedServicePeers self) serviceName hostPort,
                               connectedPeerServices :=
                                 deleteIndexEntry (connectedPeerServices self) hostPort serviceName \<rparr>
                   else self)
      in self1\<lparr> knownPeers := deleteIndexEntry (knownPeers self1) hostPort serviceName \<rparr>)"

text \<open>\<open>ensurePeerConnected(serviceName, peer, reason, now)\<close>, the peer given by its
  host-port.  A drain in progress is cleared before \<open>connectTo\<close>.\<close>

definition ensurePeerConnected :: "string \<Rightarrow> string \<Rightarrow> int \<Rightarrow> dispatcher \<Rightarrow> dispatcher" where
  "ensurePeerConnected serviceName hostPort now self =
     (let self1 = (if partialAffinityEnabled self
                   then self\<lparr> connectedServicePeers :=
                                 addIndexEntry (connectedServicePeers self) serviceName hostPort now,
                               connectedPeerServices :=
                                 addIndexEntry (connectedPeerServices self) hostPort serviceName now \<rparr>
                   else self);
          self2 = self1\<lparr> peersToPrune := AList.delete hostPort (peersToPrune self1) \<rparr>
      in modifyPeer hostPort
           (\<lambda>p. if connectedOut p then p
                else p\<lparr> draining := None, connectToCalls := connectToCalls p + 1 \<rparr>)
           self2)"

definition ensurePeerDisconnected ::
  "string \<Rightarrow> string \<Rightarrow> string \<Rightarrow> int \<Rightarrow> dispatcher \<Rightarrow> dispatcher" where
  "ensurePeerDisconnected serviceName hostPort why now self =
     (let self1 = (if partialAffinityEnabled self
                   then self\<lparr> connectedServicePeers :=
                                 deleteIndexEntry (connectedServicePeers self) serviceName hostPort,
                               connectedPeerServices :=
                                 deleteIndexEntry (connectedPeerServices self) hostPort serviceName \<rparr>
                   else self)
      in (case map_of (connectedPeerServices self1) hostPort of
            Some (entry # level) \<Rightarrow> self1
          | _ \<Rightarrow> self1\<lparr> peersToPrune :=
                          AList.update hostPort \<lparr> lastRefresh = now, pruneReason = why \<rparr>
                            (peersToPrune self1) \<rparr>))"

text \<open>\<open>getPartialRange\<close> returns the range, or \<open>null\<close> when it is not valid.\<close>

definition getPartialRange ::
  "env \<Rightarrow> string \<Rightarrow> dispatcher \<Rightarrow> partial_range option \<times> dispatcher" where
  "getPartialRange e serviceName self =
     (case map_of (partialRanges self) serviceName of
        Some pr \<Rightarrow> (if pr_isValid pr then Some pr else None, self)
      | None \<Rightarrow>
          (let self1 = getOrCreateServiceChannel e serviceName self;
               relays = map_of (relaysFor self1) serviceName;
               workers = sort (channelPeers self1 serviceName);
               pr = pr_compute relays (Some workers)
                      (PartialRange (channel_hostPort e) (minPeersPerWorker self1)
                         (minPeersPerRelay self1));
               self2 = self1\<lparr> partialRanges := AList.update serviceName pr (partialRanges self1) \<rparr>
           in (if pr_isValid pr then Some pr else None, self2)))"

record connections_result =
  noop :: bool
  toConnect :: "string list"
  isAffine :: "string list"

definition ensurePartialConnections ::
  "env \<Rightarrow> string \<Rightarrow> int \<Rightarrow> dispatcher \<Rightarrow> connections_result option \<times> dispatcher" where
  "ensurePartialConnections e serviceName now self =
     (case getPartialRange e serviceName self of
        (None, self1) \<Rightarrow> (None, self1)
      | (Some partialRange, self1) \<Rightarrow>
          (let affine = affineWorkersOf e partialRange;
               connectedPeerKeys = (case map_of (connectedServicePeers self1) serviceName of
                                      None \<Rightarrow> [] | Some level \<Rightarrow> map fst level);
               self2 = fold (u_getServicePeer serviceName) affine self1;
               toDisconnect = filter (\<lambda>worker. worker \<notin> set affine \<and>
                                        map_of (peersToPrune self2) worker = None)
                                connectedPeerKeys
           in if affine = [] \<and> toDisconnect = []
              then (Some \<lparr> noop = True, toConnect = affine, isAffine = affine \<rparr>, self2)
              else
                (let self3 = fold (\<lambda>hostPort s.
                                     ensurePeerConnected serviceName hostPort now
                                       (u_getServicePeer serviceName hostPort s))
                               affine self2;
                     self4 = fold (\<lambda>hostPort s.
                                     ensurePeerDisconnected serviceName hostPort
                                       ''service peer affinity change'' now
                                       (u_getServicePeer serviceName hostPort s))
                               toDisconnect self3
                 in (Some \<lparr> noop = False, toConnect = affine, isAffine = affine \<rparr>, self4))))"

definition isConnectedIndex :: "dispatcher \<Rightarrow> string \<Rightarrow> string \<Rightarrow> bool" where
  "isConnectedIndex self serviceName hostPort =
     (case map_of (connectedServicePeers self) serviceName of
        None \<Rightarrow> False
      | Some level \<Rightarrow> (case map_of level hostPort of None \<Rightarrow> False | Some v \<Rightarrow> truthy v))"

definition freshenPartialPeer :: "env \<Rightarrow> string \<Rightarrow> string \<Rightarrow> int \<Rightarrow> dispatcher \<Rightarrow> dispatcher" where
  "freshenPartialPeer e hostPort serviceName now self =
     (let connected = isConnectedIndex self serviceName hostPort;
          self1 = (if connected
                   then self\<lparr> connectedServicePeers :=
                                 addIndexEntry (connectedServicePeers self) serviceName hostPort now,
                               connectedPeerServices :=
                                 addIndexEntry (connectedPeerServices self) hostPort serviceName now,
                               peersToPrune := AList.delete hostPort (peersToPrune self) \<rparr>
                   else self\<lparr> connectedServicePeers :=
                                 deleteIndexEntry (connectedServicePeers self) serviceName hostPort,
                               connectedPeerServices :=
                                 deleteIndexEntry (connectedPeerServices self) hostPort serviceName \<rparr>);
          self2 = self1\<lparr> peersToReap := deleteIndexEntry (peersToReap self1) hostPort serviceName,
                         knownPeers := addIndexEntry (knownPeers self1) hostPort serviceName now \<rparr>;
          (partialRange, self3) = getPartialRange e serviceName self2;
          connected' = (case partialRange of
                          None \<Rightarrow> connected
                        | Some pr \<Rightarrow>
                            (let shouldConnect = (hostPort \<in> set (affineWorkersOf e pr))
                             in if connected \<noteq> shouldConnect
                                then (if shouldConnect then truthy now else False)
                                else connected))
      in if connected' then ensurePeerConnected serviceName hostPort now self3
         else ensurePeerDisconnected serviceName hostPort
                ''service peer affinity refresh'' now self3)"

definition refreshServicePeerPartially ::
  "env \<Rightarrow> string \<Rightarrow> string \<Rightarrow> int \<Rightarrow> dispatcher \<Rightarrow> dispatcher" where
  "refreshServicePeerPartially e serviceName hostPort now self =
     (if hostPort \<in> set (channelPeers self serviceName)
      then freshenPartialPeer e hostPort serviceName now self
      else
        (let self1 = self\<lparr> partialRanges :=
                             AList.map_entry serviceName (pr_addWorker hostPort) (partialRanges self) \<rparr>;
             self2 = u_getServicePeer serviceName hostPort self1;
             self3 = self2\<lparr> peersToReap := deleteIndexEntry (peersToReap self2) hostPort serviceName,
                            knownPeers := addIndexEntry (knownPeers self2) hostPort serviceName now \<rparr>;
             (result, self4) = ensurePartialConnections e serviceName now self3
         in (case result of
               None \<Rightarrow> self4
             | Some r \<Rightarrow>
                 if noop r
                 then (if hostPort \<in> set (isAffine r)
                       then self4\<lparr> connectedServicePeers :=
                                      addIndexEntry (connectedServicePeers self4) serviceName hostPort now,
                                    connectedPeerServices :=
                                      addIndexEntry (connectedPeerServices self4) hostPort serviceName now,
                                    peersToPrune := AList.delete hostPort (peersToPrune self4) \<rparr>
                       else self4\<lparr> connectedServicePeers :=
                                      deleteIndexEntry (connectedServicePeers self4) serviceName hostPort,
                                    connectedPeerServices :=
                                      deleteIndexEntry (connectedPeerServices self4) hostPort serviceName \<rparr>)
                 else self4)))"

definition refreshServicePeer :: "env \<Rightarrow> int \<Rightarrow> string \<Rightarrow> string \<Rightarrow> dispatcher \<Rightarrow> dispatcher" where
  "refreshServicePeer e now serviceName hostPort self =
     (let self1 = getOrCreateServiceChannel e serviceName self
      in if channelMode self1 serviceName \<noteq> Some Exit then self1
         else
           (let self2 = self1\<lparr> exitServices := AList.update serviceName now (exitServices self1) \<rparr>
            in if partialAffinityEnabled self2
               then refreshServicePeerPartially e serviceName hostPort now self2
               else
                 (let self3 = self2\<lparr> peersToPrune := AList.delete hostPort (peersToPrune self2),
                                     peersToReap :=
                                       deleteIndexEntry (peersToReap self2) hostPort serviceName,
                                     knownPeers :=
                                       addIndexEntry (knownPeers self2) hostPort serviceName now \<rparr>;
                      self4 = getServicePeer e serviceName hostPort self3
                  in ensurePeerConnected serviceName hostPort now self4)))"

text \<open>The loop of \<open>removeServicePeer\<close> that collects the other sub-channels holding the
  peer is written \<open>for (var i = 0; i < subChanKeys; i++)\<close>: the counter is compared with
  the array of keys, not with its length.  JavaScript converts the array to the string
  of its elements joined by commas and that string to a number: an empty array gives 0,
  two or more keys give \<open>NaN\<close> (the comparison is false), and a single key gives the
  number that key spells, if any.  In the body, \<open>subChanKeys[i]\<close> beyond the array is
  \<open>undefined\<close>, which names the property \<open>"undefined"\<close>; reading \<open>peers\<close> of a missing
  sub-channel raises \<open>TypeError\<close>.\<close>

definition remainBound :: "env \<Rightarrow> string list \<Rightarrow> nat" where
  "remainBound e subChanKeys =
     (case subChanKeys of [] \<Rightarrow> 0 | [k] \<Rightarrow> js_countBelow e k | k # k' # ks \<Rightarrow> 0)"

fun remainLoop ::
  "dispatcher \<Rightarrow> string list \<Rightarrow> string \<Rightarrow> nat list \<Rightarrow> string option list
     \<Rightarrow> js_error + string option list" where
  "remainLoop self subChanKeys hostPort [] remain = Inr remain"
| "remainLoop self subChanKeys hostPort (i # rest) remain =
     (let key = nth_opt subChanKeys i;
          name = (case key of None \<Rightarrow> ''undefined'' | Some k \<Rightarrow> k)
      in (case map_of (subChannels self) name of
            None \<Rightarrow> Inl (TypeError ''Cannot read property peers of undefined'')
          | Some subChan \<Rightarrow>
              remainLoop self subChanKeys hostPort rest
                (if hostPort \<in> set (sc_peers subChan) then remain @ [key] else remain)))"

definition unadvertisementDrain :: "dispatcher \<Rightarrow> drain" where
  "unadvertisementDrain self =
     \<lparr> d_goal = DRAIN_GOAL_CLOSE_PEER,
       d_reason = ''closing due to unadvertisement'',
       d_direction = ''both'',
       d_timeout = drainTimeout self,
       d_callback = ThenDeleteIt \<rparr>"

definition removeServicePeer ::
  "env \<Rightarrow> int \<Rightarrow> string \<Rightarrow> string \<Rightarrow> dispatcher \<Rightarrow> js_error option \<times> dispatcher" where
  "removeServicePeer e now serviceName hostPort self =
     (case map_of (subChannels self) serviceName of
        None \<Rightarrow> (None, self)
      | Some serviceChannel \<Rightarrow>
      (case map_of (peers self) hostPort of
        None \<Rightarrow> (None, self)
      | Some peer0 \<Rightarrow>
          (let self1 = subPeers_delete serviceName hostPort self;
               self2 =
                 (if partialAffinityEnabled self1
                  then
                    (let workers = sort (channelPeers self1 serviceName);
                         selfa = self1\<lparr> partialRanges :=
                                   AList.map_entry serviceName (pr_compute None (Some workers))
                                     (partialRanges self1) \<rparr>;
                         (result, selfb) = ensurePartialConnections e serviceName now selfa
                     in (case result of
                           None \<Rightarrow> selfb
                         | Some r \<Rightarrow>
                             if noop r
                             then selfb\<lparr> connectedServicePeers :=
                                     deleteIndexEntry (connectedServicePeers selfb) serviceName hostPort,
                                   connectedPeerServices :=
                                     deleteIndexEntry (connectedPeerServices selfb) hostPort serviceName \<rparr>
                             else selfb))
                  else self1);
               subChanKeys = map fst (subChannels self2)
           in (case remainLoop self2 subChanKeys hostPort [0 ..< remainBound e subChanKeys] [] of
                 Inl err \<Rightarrow> (Some err, self2)
               | Inr remain \<Rightarrow>
                   if remain \<noteq> [] then (None, self2)
                   else
                     (case map_of (peers self2) hostPort of
                        None \<Rightarrow> (None, self2)
                      | Some peer \<Rightarrow>
                          (case draining peer of
                             Some d \<Rightarrow>
                               if take 6 (d_reason d) = ''reaped'' then (None, self2)
                               else (None, modifyPeer hostPort
                                             (\<lambda>p. p\<lparr> draining := Some (unadvertisementDrain self2) \<rparr>)
                                             self2)
                           | None \<Rightarrow>
                               (None, modifyPeer hostPort
                                        (\<lambda>p. p\<lparr> draining := Some (unadvertisementDrain self2) \<rparr>)
                                        self2)))))))"

text \<open>The callback of the two closing drains, run by the transport when the drain is
  done: \<open>self.channel.peers.delete(hostPort)\<close>.\<close>

definition thenDeleteIt :: "string \<Rightarrow> dispatcher \<Rightarrow> dispatcher" where
  "thenDeleteIt hostPort self = self\<lparr> peers := AList.delete hostPort (peers self) \<rparr>"

section \<open>Service dispatch handler: membership reconciliation\<close>

definition changeToExit :: "string \<Rightarrow> dispatcher \<Rightarrow> dispatcher" where
  "changeToExit serviceName self =
     (let oldMode = channelMode self serviceName;
          self1 = modifyChannel serviceName (\<lambda>ch. ch\<lparr> serviceProxyMode := Some Exit \<rparr>) self;
          self2 = subPeers_clear serviceName self1
      in self2\<lparr> roleTransitions := roleTransitions self2 @ [(serviceName, oldMode, Exit)] \<rparr>)"

definition updateServiceNodes :: "env \<Rightarrow> string \<Rightarrow> int \<Rightarrow> dispatcher \<Rightarrow> dispatcher" where
  "updateServiceNodes e serviceName now self =
     (if partialAffinityEnabled self
      then snd (ensurePartialConnections e serviceName now self)
      else self)"

definition changeToForward :: "string list \<Rightarrow> string \<Rightarrow> int \<Rightarrow> dispatcher \<Rightarrow> dispatcher" where
  "changeToForward exitNames serviceName now self =
     (let oldMode = channelMode self serviceName;
          self1 = modifyChannel serviceName (\<lambda>ch. ch\<lparr> serviceProxyMode := Some Forward \<rparr>) self;
          oldPeers = channelPeers self1 serviceName;
          self2 = subPeers_clear serviceName self1;
          self3 = fold (\<lambda>hostPort s.
                          ensurePeerDisconnected serviceName hostPort
                            ''hyperbahn membership change'' now s)
                    oldPeers self2;
          self4 = fold (u_getServicePeer serviceName) exitNames self3
      in self4\<lparr> roleTransitions := roleTransitions self4 @ [(serviceName, oldMode, Forward)] \<rparr>)"

definition updateExitNodes :: "string list \<Rightarrow> string \<Rightarrow> dispatcher \<Rightarrow> dispatcher" where
  "updateExitNodes exitNames serviceName self =
     (let oldNames = channelPeers self serviceName;
          self1 = fold (\<lambda>old s. if old \<notin> set exitNames
                                 then subPeers_delete serviceName old s else s)
                    oldNames self
      in fold (u_getServicePeer serviceName) exitNames self1)"

definition updateServiceChannel :: "env \<Rightarrow> string \<Rightarrow> int \<Rightarrow> dispatcher \<Rightarrow> dispatcher" where
  "updateServiceChannel e serviceName now self =
     (let exitNames = egress_exitsFor e serviceName;
          self1 = self\<lparr> relaysFor := AList.update serviceName (sort exitNames) (relaysFor self) \<rparr>
      in if egress_isExitFor e serviceName
         then
           (let self2 = (if partialAffinityEnabled self1
                         then self1\<lparr> partialRanges :=
                                 AList.map_entry serviceName
                                   (pr_compute (Some (sort exitNames)) None)
                                   (partialRanges self1) \<rparr>
                         else self1)
            in if channelMode self2 serviceName = Some Forward
               then changeToExit serviceName self2
               else updateServiceNodes e serviceName now self2)
         else
           (let self2 = (if partialAffinityEnabled self1
                         then self1\<lparr> partialRanges := AList.delete serviceName (partialRanges self1) \<rparr>
                         else self1)
            in if channelMode self2 serviceName = Some Exit
               then changeToForward exitNames serviceName now self2
               else updateExitNodes exitNames serviceName self2))"

text \<open>\<open>updateServiceChannels\<close>: the loop runs over the keys of \<open>subChannels\<close> taken at
  the start and looks each channel up again; no step of the loop removes a
  sub-channel.\<close>

definition updateServiceChannels_step :: "env \<Rightarrow> int \<Rightarrow> string \<Rightarrow> dispatcher \<Rightarrow> dispatcher" where
  "updateServiceChannels_step e now serviceName self =
     (case map_of (subChannels self) serviceName of
        None \<Rightarrow> self
      | Some serviceChannel \<Rightarrow>
          (case serviceProxyMode serviceChannel of
             None \<Rightarrow> self
           | Some m \<Rightarrow> updateServiceChannel e serviceName now self))"

definition updateServiceChannels :: "env \<Rightarrow> int \<Rightarrow> dispatcher \<Rightarrow> dispatcher" where
  "updateServiceChannels e now self =
     (let serviceNames = map fst (subChannels self);
          self1 = fold (updateServiceChannels_step e now) serviceNames self
      in (case circuits self1 of
            None \<Rightarrow> self1
          | Some cs \<Rightarrow> self1\<lparr> circuits := Some (updateServices (egress_isExitFor e) cs) \<rparr>))"

section \<open>Service dispatch handler: request admission\<close>

definition tableHit :: "(string \<times> int) list \<Rightarrow> string \<Rightarrow> bool" where
  "tableHit table key = (case map_of table key of None \<Rightarrow> False | Some v \<Rightarrow> truthy v)"

definition tableBlocks :: "(string \<times> int) list option \<Rightarrow> string \<Rightarrow> string \<Rightarrow> bool" where
  "tableBlocks table cn serviceName =
     (case table of
        None \<Rightarrow> False
      | Some t \<Rightarrow> tableHit t (cn @ ''~~'' @ serviceName) \<or>
                  tableHit t (''*~~'' @ serviceName) \<or>
                  tableHit t (cn @ ''~~*''))"

text \<open>A caller name or service name that is \<open>undefined\<close> or empty is falsy.\<close>

definition orStar :: "string option \<Rightarrow> string" where
  "orStar x = (case x of None \<Rightarrow> ''*'' | Some s \<Rightarrow> if s = [] then ''*'' else s)"

definition isBlocked :: "dispatcher \<Rightarrow> string option \<Rightarrow> string option \<Rightarrow> bool" where
  "isBlocked self cn serviceName =
     (tableBlocks (blockingTable self) (orStar cn) (orStar serviceName) \<or>
      tableBlocks (blockingTableRemoteConfig self) (orStar cn) (orStar serviceName))"

text \<open>\<open>block(cn, serviceName)\<close> at the time \<open>Date.now()\<close>; the assertion that not both
  are wild cards is the \<open>None\<close> result.\<close>

definition block :: "int \<Rightarrow> string option \<Rightarrow> string option \<Rightarrow> dispatcher \<Rightarrow> dispatcher option" where
  "block dateNow cn serviceName self =
     (if orStar cn = ''*'' \<and> orStar serviceName = ''*'' then None
      else Some (self\<lparr> blockingTable :=
                   Some (AList.update (orStar cn @ ''~~'' @ orStar serviceName) dateNow
                           (case blockingTable self of None \<Rightarrow> [] | Some t \<Rightarrow> t)) \<rparr>))"

definition isExitFor :: "env \<Rightarrow> dispatcher \<Rightarrow> string \<Rightarrow> bool" where
  "isExitFor e self serviceName =
     (case map_of (subChannels self) serviceName of
        None \<Rightarrow> egress_isExitFor e serviceName
      | Some serviceChannel \<Rightarrow> serviceProxyMode serviceChannel = Some Exit)"

datatype rate_limit_reason =
    RATE_LIMIT_TOTAL | RATE_LIMIT_SERVICE | RATE_LIMIT_KILLSWITCH | RATE_LIMIT_NONE

text \<open>A call of a rate limiter method adds it to the calls made; a decision is
  answered from the calls made before it.\<close>

definition rl_do :: "rl_call \<Rightarrow> rl_call list \<Rightarrow> rl_call list" where
  "rl_do c calls = calls @ [c]"

definition rl_ask :: "env \<Rightarrow> rl_call \<Rightarrow> rl_call list \<Rightarrow> bool \<times> rl_call list" where
  "rl_ask e q calls = (rl_answer e calls q, calls @ [q])"

text \<open>\<open>cn + '~~' + serviceName\<close> with an \<open>undefined\<close> caller name.\<close>

definition js_string :: "string option \<Rightarrow> string" where
  "js_string x = (case x of None \<Rightarrow> ''undefined'' | Some s \<Rightarrow> s)"

definition rateLimit_calls ::
  "env \<Rightarrow> bool \<Rightarrow> string option \<Rightarrow> string \<Rightarrow> rl_call list \<Rightarrow> rate_limit_reason \<times> rl_call list" where
  "rateLimit_calls e isExitNode cn serviceName rl0 =
     (let rl1 = rl_do (IncrementEdgeCounter (js_string cn @ ''~~'' @ serviceName)) rl0;
          rl2 = (if isExitNode
                 then rl_do (CreateKillSwitchServiceCounter serviceName)
                        (rl_do (CreateServiceCounter serviceName) rl1)
                 else rl1);
          (ksTotal, rl3) = rl_ask e (ShouldKillSwitchTotalRequest serviceName) rl2;
          (ksService, rl4) = (if \<not> ksTotal \<and> isExitNode
                              then rl_ask e (ShouldKillSwitchService serviceName) rl3
                              else (False, rl3))
      in if ksTotal \<or> ksService then (RATE_LIMIT_KILLSWITCH, rl4)
         else
           (let rl5 = rl_do (IncrementKillSwitchTotalCounter serviceName) rl4;
                rl6 = (if isExitNode
                       then rl_do (IncrementKillSwitchServiceCounter serviceName) rl5
                       else rl5);
                (overTotal, rl7) = rl_ask e (ShouldRateLimitTotalRequest serviceName) rl6
            in if overTotal then (RATE_LIMIT_TOTAL, rl7)
               else
                 (let (overService, rl8) = (if isExitNode
                                            then rl_ask e (ShouldRateLimitService serviceName) rl7
                                            else (False, rl7))
                  in if overService then (RATE_LIMIT_SERVICE, rl8)
                     else
                       (let rl9 = rl_do (IncrementTotalCounter serviceName) rl8;
                            rl10 = (if isExitNode
                                    then rl_do (IncrementServiceCounter serviceName) rl9
                                    else rl9)
                        in (RATE_LIMIT_NONE, rl10)))))"

definition rateLimit ::
  "env \<Rightarrow> string option \<Rightarrow> string \<Rightarrow> dispatcher \<Rightarrow> rate_limit_reason \<times> dispatcher" where
  "rateLimit e cn serviceName self =
     (let (why, rl) = rateLimit_calls e (isExitFor e self serviceName) cn serviceName
                        (rateLimiter self)
      in (why, self\<lparr> rateLimiter := rl \<rparr>))"

fun showInt :: "int \<Rightarrow> string" where
  "showInt n = (if n < 0 then ''-'' @ showNat (nat (- n)) else showNat (nat n))"

text \<open>What a request handler does towards the caller and the next handler.\<close>

datatype action =
    SendError string string
  | SendLazyErrorFrame string string
  | PopInReq
  | Log log_level string
  | RelayHandleRequest string
  | RelayHandleLazily string

text \<open>An incoming request: the declared service name (empty when there is none), the
  \<open>cn\<close> and \<open>rd\<close> headers, and whether \<open>req.connection.ops\<close> exists (it does not on a
  self connection).\<close>

record request =
  req_serviceName :: string
  req_cn :: "string option"
  req_rd :: "string option"
  req_hasConnectionOps :: bool

definition nonEmpty :: "string option \<Rightarrow> string option" where
  "nonEmpty x = (case x of None \<Rightarrow> None | Some s \<Rightarrow> if s = [] then None else Some s)"

definition totalBusyMessage :: "int \<Rightarrow> string" where
  "totalBusyMessage totalLimit =
     ''hyperbahn node is rate-limited by the total rps of '' @ showInt totalLimit"

definition serviceBusyMessage :: "string option \<Rightarrow> string \<Rightarrow> int \<Rightarrow> string" where
  "serviceBusyMessage routingDelegate serviceName serviceLimit =
     (case routingDelegate of
        Some rd \<Rightarrow> ''Routing delegate '' @ rd @ '' is rate-limited by the service rps of '' @
                   showInt serviceLimit
      | None \<Rightarrow> serviceName @ '' is rate-limited by the service rps of '' @ showInt serviceLimit)"

definition handleRequest :: "env \<Rightarrow> request \<Rightarrow> dispatcher \<Rightarrow> action list \<times> dispatcher" where
  "handleRequest e req self =
     (if req_serviceName req = []
      then ([Log LogWarn ''Got incoming req with no service'',
             SendError ''BadRequest'' ''no service name given''], self)
      else
        (let routingDelegate = nonEmpty (req_rd req);
             nextService = (case routingDelegate of Some rd \<Rightarrow> rd | None \<Rightarrow> req_serviceName req)
         in if isBlocked self (req_cn req) (Some nextService) then ([PopInReq], self)
            else
              (let (why, self1) = (if rateLimiterEnabled self
                                   then rateLimit e (req_cn req) nextService self
                                   else (RATE_LIMIT_NONE, self))
               in if why = RATE_LIMIT_KILLSWITCH
                  then (if req_hasConnectionOps req then ([PopInReq], self1)
                        else ([Log LogWarn
                                 ''rate limiter unable to pop in req, because self connection''],
                              self1))
                  else if why = RATE_LIMIT_TOTAL
                  then ([Log LogInfo ''hyperbahn node is rate-limited by the total rps limit'',
                         SendError ''Busy''
                           (totalBusyMessage (rl_totalRpsLimit e (rateLimiter self1)))], self1)
                  else if why = RATE_LIMIT_SERVICE
                  then ([Log LogInfo ''hyperbahn service is rate-limited by the service rps limit'',
                         SendError ''Busy''
                           (serviceBusyMessage routingDelegate (req_serviceName req)
                              (rl_rpsLimitForService e (rateLimiter self1) nextService))], self1)
                  else
                    (let self2 = getOrCreateServiceChannel e nextService self1
                     in ([RelayHandleRequest nextService], self2)))))"

text \<open>A lazily read frame: the result of \<open>readService\<close> (\<open>None\<close> is a read error) and of
  \<open>readHeaders\<close> (\<open>None\<close> is a read error, otherwise the \<open>rd\<close> and \<open>cn\<close> header values).\<close>

record lazy_frame =
  lf_service :: "string option"
  lf_headers :: "(string option \<times> string option) option"

datatype lazy_return = ReturnFalse | ReturnNull | ReturnTrue | ReturnOfRelayHandler

definition handleLazily ::
  "env \<Rightarrow> lazy_frame \<Rightarrow> dispatcher \<Rightarrow> lazy_return \<times> action list \<times> dispatcher" where
  "handleLazily e reqFrame self =
     (case lf_service reqFrame of
        None \<Rightarrow> (ReturnFalse,
                  [Log LogError ''failed to lazy read frame serviceName'',
                   SendLazyErrorFrame ''BadRequest'' ''failed to read serviceName''], self)
      | Some serviceName \<Rightarrow>
        if serviceName = []
        then (ReturnFalse,
              [Log LogError ''missing service name in lazy frame'',
               SendLazyErrorFrame ''BadRequest'' ''missing serviceName''], self)
        else
          (case lf_headers reqFrame of
             None \<Rightarrow> (ReturnFalse,
                       [Log LogWarn ''failed to lazy read frame headers'',
                        SendLazyErrorFrame ''BadRequest'' ''failed to read headers''], self)
           | Some (rd, cnHeader) \<Rightarrow>
             (let routingDelegate = nonEmpty rd;
                  nextService = (case routingDelegate of Some d \<Rightarrow> d | None \<Rightarrow> serviceName)
              in (case nonEmpty cnHeader of
                    None \<Rightarrow> (ReturnFalse,
                              [Log LogWarn ''request missing cn header'',
                               SendLazyErrorFrame ''BadRequest'' ''missing cn header''], self)
                  | Some cn \<Rightarrow>
                    if isBlocked self (Some cn) (Some serviceName)
                    then (ReturnNull, [PopInReq], self)
                    else
                      (let (why, self1) = (if rateLimiterEnabled self
                                           then rateLimit e (Some cn) nextService self
                                           else (RATE_LIMIT_NONE, self))
                       in if why = RATE_LIMIT_KILLSWITCH then (ReturnTrue, [PopInReq], self1)
                          else if why = RATE_LIMIT_TOTAL
                          then (ReturnTrue,
                                [Log LogInfo ''hyperbahn node is rate-limited by the total rps limit'',
                                 SendLazyErrorFrame ''Busy''
                                   (totalBusyMessage (rl_totalRpsLimit e (rateLimiter self1)))],
                                self1)
                          else if why = RATE_LIMIT_SERVICE
                          then (ReturnTrue,
                                [Log LogInfo
                                   ''hyperbahn service is rate-limited by the service rps limit'',
                                 SendLazyErrorFrame ''Busy''
                                   (serviceBusyMessage routingDelegate serviceName
                                      (rl_rpsLimitForService e (rateLimiter self1) nextService))],
                                self1)
                          else
                            (let self2 = getOrCreateServiceChannel e nextService self1
                             in (ReturnOfRelayHandler, [RelayHandleLazily nextService], self2)))))))"

section \<open>Service dispatch handler: periodic scans\<close>

text \<open>Modelled from the spec: the interval scanner (lib/interval-scan.js is not among
  the sources).  Each tick it calls \<open>getCollection\<close>, which may swap the collection
  out, and invokes \<open>each(key, value, now)\<close> per entry, the value being the one stored
  under the key.  An exception raised by \<open>each\<close> ends the run where it is, with the
  changes made so far.\<close>

fun intervalScan_run ::
  "(string \<Rightarrow> 'v \<Rightarrow> 's \<Rightarrow> js_error option \<times> 's) \<Rightarrow> (string \<times> 'v) list \<Rightarrow> 's
     \<Rightarrow> js_error option \<times> 's" where
  "intervalScan_run each [] s = (None, s)"
| "intervalScan_run each ((key, v) # rest) s =
     (case each key v s of
        (Some err, s') \<Rightarrow> (Some err, s')
      | (None, s') \<Rightarrow> intervalScan_run each rest s')"

subsection \<open>The service purger\<close>

text \<open>\<open>maybePurgeEachService(serviceName, lastRefresh)\<close> at the time \<open>now\<close>.  The test is
  \<open>now - lastRefresh > self.servicePurgePeriod\<close>; a comparison with \<open>undefined\<close> is
  false.\<close>

definition maybePurgeEachService :: "int \<Rightarrow> string \<Rightarrow> int \<Rightarrow> dispatcher \<Rightarrow> dispatcher" where
  "maybePurgeEachService now serviceName refreshed self =
     (case servicePurgePeriod self of
        None \<Rightarrow> self
      | Some period \<Rightarrow>
          if now - refreshed > period
          then
            (let self1 = self\<lparr> exitServices := AList.delete serviceName (exitServices self) \<rparr>
             in (case map_of (subChannels self1) serviceName of
                   None \<Rightarrow> self1
                 | Some serviceChannel \<Rightarrow>
                     self1\<lparr> closedChannels := closedChannels self1 @ [serviceName],
                            subChannels := AList.delete serviceName (subChannels self1),
                            rateLimiter :=
                              rl_do (RemoveKillSwitchCounter serviceName)
                                (rl_do (RemoveServiceCounter serviceName) (rateLimiter self1)) \<rparr>))
          else self)"

definition servicePurger_tick :: "int \<Rightarrow> dispatcher \<Rightarrow> js_error option \<times> dispatcher" where
  "servicePurger_tick now self =
     intervalScan_run
       (\<lambda>serviceName refreshed s. (None, maybePurgeEachService now serviceName refreshed s))
       (exitServices self) self"

subsection \<open>The peer reaper\<close>

text \<open>
  The second argument of \<open>reapSinglePeer\<close> is called \<open>serviceNames\<close> and is read as an
  array: \<open>serviceNames.length\<close> and \<open>serviceNames[i]\<close>.  The reaper's scan passes the
  value stored under the host-port in \<open>peersToReap\<close>, which is the object that
  \<open>addIndexEntry\<close> made: service name to timestamp.  Both are modelled.  On such an
  object \<open>length\<close> is the timestamp stored for a service called \<open>length\<close>, if there is
  one, and \<open>undefined\<close> otherwise (the loop then does not run); \<open>serviceNames[i]\<close> is the
  timestamp stored for a service called by the decimal numeral of \<open>i\<close>, or \<open>undefined\<close>;
  and the value read, used as a property name, is its string.
\<close>

datatype reap_arg = NameArray "string list" | LevelObject "(string \<times> int) list"

definition reapLength :: "reap_arg \<Rightarrow> nat" where
  "reapLength serviceNames =
     (case serviceNames of
        NameArray names \<Rightarrow> length names
      | LevelObject level \<Rightarrow> (case map_of level ''length'' of None \<Rightarrow> 0 | Some t \<Rightarrow> nat t))"

definition reapName :: "reap_arg \<Rightarrow> nat \<Rightarrow> string" where
  "reapName serviceNames i =
     (case serviceNames of
        NameArray names \<Rightarrow> js_string (nth_opt names i)
      | LevelObject level \<Rightarrow>
          (case map_of level (showNat i) of None \<Rightarrow> ''undefined'' | Some t \<Rightarrow> showInt t))"

text \<open>One round of the loop of \<open>reapSinglePeer\<close>; \<open>partialRange.removeWorker\<close> on a
  missing range raises \<open>TypeError\<close>.\<close>

definition reapService :: "string \<Rightarrow> string \<Rightarrow> dispatcher \<Rightarrow> js_error option \<times> dispatcher" where
  "reapService hostPort serviceName self =
     (let self1 = (case map_of (subChannels self) serviceName of
                     None \<Rightarrow> self
                   | Some serviceChannel \<Rightarrow> subPeers_delete serviceName hostPort self);
          self2 = deletePeerIndex serviceName hostPort self1
      in (case map_of (partialRanges self2) serviceName of
            None \<Rightarrow> (Some (TypeError ''Cannot read property removeWorker of undefined''), self2)
          | Some partialRange \<Rightarrow>
              (None, self2\<lparr> partialRanges :=
                              AList.update serviceName (pr_removeWorker hostPort partialRange)
                                (partialRanges self2) \<rparr>)))"

fun reapLoop ::
  "string \<Rightarrow> reap_arg \<Rightarrow> nat list \<Rightarrow> dispatcher \<Rightarrow> js_error option \<times> dispatcher" where
  "reapLoop hostPort serviceNames [] self = (None, self)"
| "reapLoop hostPort serviceNames (i # rest) self =
     (case reapService hostPort (reapName serviceNames i) self of
        (Some err, self') \<Rightarrow> (Some err, self')
      | (None, self') \<Rightarrow> reapLoop hostPort serviceNames rest self')"

definition reapDrain :: "dispatcher \<Rightarrow> drain" where
  "reapDrain self =
     \<lparr> d_goal = DRAIN_GOAL_CLOSE_PEER,
       d_reason = ''reaped for expired advertisement'',
       d_direction = ''both'',
       d_timeout = drainTimeout self,
       d_callback = ThenDeleteIt \<rparr>"

definition reapSinglePeer ::
  "string \<Rightarrow> reap_arg \<Rightarrow> int \<Rightarrow> dispatcher \<Rightarrow> js_error option \<times> dispatcher" where
  "reapSinglePeer hostPort serviceNames now self =
     (case map_of (knownPeers self) hostPort of
        Some level \<Rightarrow> (None, self)
      | None \<Rightarrow>
          (case map_of (peers self) hostPort of
             None \<Rightarrow> (None, self)
           | Some peer \<Rightarrow>
               (case (case draining peer of
                        None \<Rightarrow> Some self
                      | Some d \<Rightarrow>
                          if take 11 (d_reason d) \<noteq> ''peer pruned'' then None
                          else Some (modifyPeer hostPort (\<lambda>p. p\<lparr> draining := None \<rparr>) self)) of
                  None \<Rightarrow> (None, self)
                | Some self1 \<Rightarrow>
                    (case reapLoop hostPort serviceNames [0 ..< reapLength serviceNames] self1 of
                       (Some err, self2) \<Rightarrow> (Some err, self2)
                     | (None, self2) \<Rightarrow>
                         (None, modifyPeer hostPort
                                  (\<lambda>p. p\<lparr> draining := Some (reapDrain self2) \<rparr>) self2)))))"

text \<open>One tick of the reaper: \<open>getPeersToReap\<close> returns the old \<open>peersToReap\<close> and rolls
  \<open>knownPeers\<close> over into it.\<close>

definition peerReaper_tick :: "int \<Rightarrow> dispatcher \<Rightarrow> js_error option \<times> dispatcher" where
  "peerReaper_tick now self =
     (let collection = peersToReap self;
          self1 = self\<lparr> peersToReap := knownPeers self, knownPeers := [] \<rparr>
      in intervalScan_run
           (\<lambda>hostPort level s. reapSinglePeer hostPort (LevelObject level) now s)
           collection self1)"

section \<open>Discovery: the local lookup (handler.js, the function behind discover and discoverAffine)\<close>

datatype discover_result = NoPeersAvailable string | Peers "discovered_peer list"

definition u_getDiscoverHosts :: "dispatcher \<Rightarrow> string \<Rightarrow> discover_result" where
  "u_getDiscoverHosts self serviceName =
     (let hosts = (case map_of (subChannels self) serviceName of
                     None \<Rightarrow> []
                   | Some svcchan \<Rightarrow> convertHosts (sc_peers svcchan))
      in if hosts = [] then NoPeersAvailable serviceName else Peers hosts)"

section \<open>Notions used to state the properties\<close>

text \<open>No peer was seen in the current reap window nor in the one before.\<close>

definition noPeersSeen :: "dispatcher \<Rightarrow> bool" where
  "noPeersSeen self = (knownPeers self = [] \<and> peersToReap self = [])"

text \<open>For every name, whether a sub-channel exists, and if so its mode.\<close>

definition channelModes :: "dispatcher \<Rightarrow> string \<Rightarrow> proxy_mode option option" where
  "channelModes self serviceName =
     map_option serviceProxyMode (map_of (subChannels self) serviceName)"

text \<open>The mode that the ring asks for.\<close>

definition targetMode :: "env \<Rightarrow> string \<Rightarrow> proxy_mode" where
  "targetMode e serviceName = (if egress_isExitFor e serviceName then Exit else Forward)"






section \<open>Example configurations\<close>

text \<open>A router at \<open>127.0.0.1:3000\<close> that the ring makes an exit for every service, with a
  rate limiter that never objects.\<close>

definition exitEnv :: env where
  "exitEnv =
     \<lparr> egress_exitsFor = (\<lambda>s. [''127.0.0.1:3000'']),
       egress_isExitFor = (\<lambda>s. True),
       channel_hostPort = ''127.0.0.1:3000'',
       affineWorkersOf = pr_workers,
       rl_answer = (\<lambda>calls q. False),
       rl_totalRpsLimit = (\<lambda>calls. 1200),
       rl_rpsLimitForService = (\<lambda>calls s. 100),
       js_countBelow = (\<lambda>s. 0) \<rparr>"

text \<open>A new dispatcher on a top channel without sub-channels and peers, created with
  \<open>servicePurgePeriod: 50\<close> as the purge test of the repository does.\<close>

definition newDispatcher :: dispatcher where
  "newDispatcher =
     ServiceDispatchHandler (defaultOptions\<lparr> opt_servicePurgePeriod := Some 50 \<rparr>) [] []"

text \<open>The worker \<open>10.0.0.1:4040\<close> has advertised \<open>steve\<close> at time 1.\<close>

definition steveAdvertised :: dispatcher where
  "steveAdvertised = refreshServicePeer exitEnv 1 ''steve'' ''10.0.0.1:4040'' newDispatcher"

text \<open>The same worker has advertised \<open>steve\<close> and \<open>bob\<close>.\<close>

definition steveBobAdvertised :: dispatcher where
  "steveBobAdvertised = refreshServicePeer exitEnv 1 ''bob'' ''10.0.0.1:4040'' steveAdvertised"

text \<open>The worker has advertised a service that is called \<open>length\<close>.\<close>

definition lengthAdvertised :: dispatcher where
  "lengthAdvertised = refreshServicePeer exitEnv 1 ''length'' ''10.0.0.1:4040'' newDispatcher"

text \<open>An operator has blocked the edge from \<open>web\<close> to \<open>delegate\<close>, or from \<open>web\<close> to
  \<open>steve\<close>; a request from \<open>web\<close> declares the service \<open>steve\<close> and carries the routing
  delegate \<open>delegate\<close>, once as a parsed request and once as a lazily read frame.\<close>

definition blockedDelegate :: dispatcher where
  "blockedDelegate =
     (case block 7 (Some ''web'') (Some ''delegate'') newDispatcher of
        Some s \<Rightarrow> s | None \<Rightarrow> newDispatcher)"

definition blockedDeclared :: dispatcher where
  "blockedDeclared =
     (case block 7 (Some ''web'') (Some ''steve'') newDispatcher of
        Some s \<Rightarrow> s | None \<Rightarrow> newDispatcher)"

definition delegatedRequest :: request where
  "delegatedRequest =
     \<lparr> req_serviceName = ''steve'', req_cn = Some ''web'', req_rd = Some ''delegate'',
       req_hasConnectionOps = True \<rparr>"

definition delegatedFrame :: lazy_frame where
  "delegatedFrame =
     \<lparr> lf_service = Some ''steve'', lf_headers = Some (Some ''delegate'', Some ''web'') \<rparr>"

text \<open>A router that is an exit for nothing, and a ring change after which the router
  is an exit for \<open>steve\<close> only.\<close>

definition forwardEnv :: env where
  "forwardEnv = exitEnv\<lparr> egress_isExitFor := (\<lambda>s. False) \<rparr>"

definition steveOnlyEnv :: env where
  "steveOnlyEnv = exitEnv\<lparr> egress_isExitFor := (\<lambda>s. s = ''steve'') \<rparr>"

text \<open>A dispatcher with a forward channel for \<open>steve\<close> and an exit channel for \<open>bob\<close>.\<close>

definition mixedChannels :: dispatcher where
  "mixedChannels =
     refreshServicePeer exitEnv 1 ''bob'' ''10.0.0.1:4040''
       (getOrCreateServiceChannel forwardEnv ''steve'' newDispatcher)"






text \<open>The worker \<open>192.168.0.1:80\<close> has advertised \<open>steve\<close>.\<close>

definition privateAdvertised :: dispatcher where
  "privateAdvertised = refreshServicePeer exitEnv 1 ''steve'' ''192.168.0.1:80'' newDispatcher"

section \<open>Relay fan-out: retries are bounded and the callback never fails\<close>

lemma tryRequest_shape:
  "\<exists>n. a < n \<and> n \<le> max (Suc a) (Suc (maxRelayAdAttempts h)) \<and>
       (\<forall>k. a < k \<and> k < n \<longrightarrow> \<not> responseOk (net k) \<and> retryable (net k)) \<and>
       (responseOk (net n) \<or> \<not> retryable (net n) \<or> maxRelayAdAttempts h < n) \<and>
       tryRequest h net a = relayTrace h net a n"
proof (induction h net a rule: tryRequest.induct)
  case (1 h net a)
  show ?case
  proof (cases "\<not> responseOk (net (Suc a)) \<and> Suc a \<le> maxRelayAdAttempts h \<and> retryable (net (Suc a))")
    case True
    then obtain n where n: "Suc a < n" "n \<le> max (Suc (Suc a)) (Suc (maxRelayAdAttempts h))"
       "\<forall>k. Suc a < k \<and> k < n \<longrightarrow> \<not> responseOk (net k) \<and> retryable (net k)"
       "responseOk (net n) \<or> \<not> retryable (net n) \<or> maxRelayAdAttempts h < n"
       "tryRequest h net (Suc a) = relayTrace h net (Suc a) n"
      using 1 [of "a + 1" "net (a + 1)"] by auto
    have up: "[Suc a..<n] = Suc a # [Suc (Suc a)..<n]"
      using n(1) by (simp add: upt_conv_Cons)
    have "tryRequest h net a = relayTrace h net a n"
      using True n(5) by (subst tryRequest.simps) (simp add: relayTrace_def up Let_def)
    moreover have "\<forall>k. a < k \<and> k < n \<longrightarrow> \<not> responseOk (net k) \<and> retryable (net k)"
      using n(3) True by (metis Suc_lessI)
    moreover have "n \<le> max (Suc a) (Suc (maxRelayAdAttempts h))"
      using n(2) True by auto
    ultimately show ?thesis using n(1,4) by (intro exI [of _ n]) auto
  next
    case False
    have "tryRequest h net a = relayTrace h net a (Suc a)"
      using False by (subst tryRequest.simps) (auto simp: relayTrace_def Let_def)
    then show ?thesis using False by (intro exI [of _ "Suc a"]) auto
  qed
qed

lemma responseOk_written_out:
  "responseOk out = (map_option r_ok (o_response out) = Some True)"
  by (cases "o_response out") (simp_all add: responseOk_def)

text \<open>
  Claim C8.  A \<open>sendRelay\<close> fan-out makes some number \<open>n\<close> of requests with
  \<open>1 \<le> n \<le> maxRelayAdAttempts + 1\<close>, that is at most \<open>maxRelayAdAttempts\<close> further
  attempts after the first.  Every attempt that was followed by another one got no ok
  response and an error that the transport classifies \<open>NetworkError\<close> or \<open>Timeout\<close>,
  and the next attempt was armed with the delay \<open>relayAdRetryTime\<close>.  The fan-out stops
  at the first attempt that gets an ok response, or has no error, or an error of any
  other classification, or is number \<open>maxRelayAdAttempts + 1\<close>.  A last attempt without
  an ok response is logged once, at error level when the transport calls the error
  fatal and at warn otherwise, and in every case the callback is invoked exactly once,
  last, with no error.
\<close>

theorem sendRelay_bounded_retries:
  "\<exists>n. 1 \<le> n \<and> n \<le> maxRelayAdAttempts h + 1 \<and>
       (\<forall>k. 1 \<le> k \<and> k < n \<longrightarrow>
            map_option r_ok (o_response (net k)) \<noteq> Some True \<and>
            o_err (net k) \<and>
            (o_classify (net k) = ''NetworkError'' \<or> o_classify (net k) = ''Timeout'')) \<and>
       (map_option r_ok (o_response (net n)) = Some True \<or>
        \<not> o_err (net n) \<or>
        (o_classify (net n) \<noteq> ''NetworkError'' \<and> o_classify (net n) \<noteq> ''Timeout'') \<or>
        n = maxRelayAdAttempts h + 1) \<and>
       sendRelay h net =
         concat (map (\<lambda>k. [Attempt k, SetTimeout (relayAdRetryTime h)]) [1..<n]) @
         Attempt n #
         (if map_option r_ok (o_response (net n)) = Some True then [Callback None]
          else [Logged (if o_isFatal (net n) then LogError else LogWarn), Callback None])"
proof -
  obtain n where n: "0 < n" "n \<le> max (Suc 0) (Suc (maxRelayAdAttempts h))"
       "\<forall>k. 0 < k \<and> k < n \<longrightarrow> \<not> responseOk (net k) \<and> retryable (net k)"
       "responseOk (net n) \<or> \<not> retryable (net n) \<or> maxRelayAdAttempts h < n"
       "tryRequest h net 0 = relayTrace h net 0 n"
    using tryRequest_shape [of 0 h net] by blast
  have 1: "1 \<le> n \<and> n \<le> maxRelayAdAttempts h + 1" using n(1,2) by auto
  have 2: "\<forall>k. 1 \<le> k \<and> k < n \<longrightarrow>
            map_option r_ok (o_response (net k)) \<noteq> Some True \<and>
            o_err (net k) \<and>
            (o_classify (net k) = ''NetworkError'' \<or> o_classify (net k) = ''Timeout'')"
  proof (intro allI impI)
    fix k
    assume "1 \<le> k \<and> k < n"
    then have "0 < k \<and> k < n" by auto
    then have "\<not> responseOk (net k) \<and> retryable (net k)" using n(3) by blast
    then show "map_option r_ok (o_response (net k)) \<noteq> Some True \<and>
            o_err (net k) \<and>
            (o_classify (net k) = ''NetworkError'' \<or> o_classify (net k) = ''Timeout'')"
      by (simp add: responseOk_written_out retryable_def)
  qed
  have 3: "map_option r_ok (o_response (net n)) = Some True \<or>
        \<not> o_err (net n) \<or>
        (o_classify (net n) \<noteq> ''NetworkError'' \<and> o_classify (net n) \<noteq> ''Timeout'') \<or>
        n = maxRelayAdAttempts h + 1"
    using n(4) 1 unfolding responseOk_written_out retryable_def by auto
  have 4: "sendRelay h net =
         concat (map (\<lambda>k. [Attempt k, SetTimeout (relayAdRetryTime h)]) [1..<n]) @
         Attempt n #
         (if map_option r_ok (o_response (net n)) = Some True then [Callback None]
          else [Logged (if o_isFatal (net n) then LogError else LogWarn), Callback None])"
    using n(5) unfolding sendRelay_def relayTrace_def logError_def responseOk_written_out
    by simp
  show ?thesis
    using 1 2 3 4 by (intro exI [of _ n]) blast
qed

text \<open>With the default configuration the theorem gives: on a network where every
  request times out, three requests, two retry timers of one second, one warning and
  the callback; on a fatal error, one request and one line at error level; on a
  declined request, one request and one warning; and after a network error followed by
  an ok response, two requests, one timer and no log line.\<close>

theorem sendRelay_bounded_retries_witness:
  "sendRelay (HyperbahnHandler None None None) allTimeouts =
     [Attempt 1, SetTimeout 1000, Attempt 2, SetTimeout 1000, Attempt 3,
      Logged LogWarn, Callback None] \<and>
   sendRelay (HyperbahnHandler None None None) fatalError =
     [Attempt 1, Logged LogError, Callback None] \<and>
   sendRelay (HyperbahnHandler None None None) declined =
     [Attempt 1, Logged LogWarn, Callback None] \<and>
   sendRelay (HyperbahnHandler None None None) networkErrorThenOk =
     [Attempt 1, SetTimeout 1000, Attempt 2, Callback None]"
proof -
  let ?h = "HyperbahnHandler None None None"
  have m: "maxRelayAdAttempts ?h = 2" and d: "relayAdRetryTime ?h = 1000"
    by (simp_all add: HyperbahnHandler_def js_or_def MAX_RELAY_AD_ATTEMPTS_def
        RELAY_AD_RETRY_TIME_def)
  have u3: "[Suc 0..<3] = [1, 2]" and u2: "[Suc 0..<2] = [1]"
    by (simp_all add: upt_rec)
  have a: "sendRelay ?h allTimeouts =
     [Attempt 1, SetTimeout 1000, Attempt 2, SetTimeout 1000, Attempt 3,
      Logged LogWarn, Callback None]"
  proof -
    obtain n where n: "1 \<le> n" "n \<le> maxRelayAdAttempts ?h + 1"
      "map_option r_ok (o_response (allTimeouts n)) = Some True \<or>
        \<not> o_err (allTimeouts n) \<or>
        (o_classify (allTimeouts n) \<noteq> ''NetworkError'' \<and> o_classify (allTimeouts n) \<noteq> ''Timeout'') \<or>
        n = maxRelayAdAttempts ?h + 1"
      "sendRelay ?h allTimeouts =
         concat (map (\<lambda>k. [Attempt k, SetTimeout (relayAdRetryTime ?h)]) [1..<n]) @
         Attempt n #
         (if map_option r_ok (o_response (allTimeouts n)) = Some True then [Callback None]
          else [Logged (if o_isFatal (allTimeouts n) then LogError else LogWarn), Callback None])"
      using sendRelay_bounded_retries [of ?h allTimeouts] by blast
    from n(3) m have "n = 3" by (simp add: allTimeouts_def)
    then show ?thesis using n(4) by (simp add: d u3 allTimeouts_def)
  qed
  have one: "n = 1"
    if "1 \<le> n"
       "\<forall>k. 1 \<le> k \<and> k < n \<longrightarrow>
            map_option r_ok (o_response (net k)) \<noteq> Some True \<and>
            o_err (net k) \<and>
            (o_classify (net k) = ''NetworkError'' \<or> o_classify (net k) = ''Timeout'')"
       "o_classify (net 1) \<noteq> ''NetworkError''" "o_classify (net 1) \<noteq> ''Timeout''"
    for n :: nat and net
  proof (rule ccontr)
    assume "n \<noteq> 1"
    then have "1 \<le> (1 :: nat) \<and> 1 < n" using that(1) by auto
    then show False using that(2,3,4) by blast
  qed
  have f: "sendRelay ?h fatalError = [Attempt 1, Logged LogError, Callback None]"
  proof -
    obtain n where n: "1 \<le> n"
      "\<forall>k. 1 \<le> k \<and> k < n \<longrightarrow>
            map_option r_ok (o_response (fatalError k)) \<noteq> Some True \<and>
            o_err (fatalError k) \<and>
            (o_classify (fatalError k) = ''NetworkError'' \<or> o_classify (fatalError k) = ''Timeout'')"
      "sendRelay ?h fatalError =
         concat (map (\<lambda>k. [Attempt k, SetTimeout (relayAdRetryTime ?h)]) [1..<n]) @
         Attempt n #
         (if map_option r_ok (o_response (fatalError n)) = Some True then [Callback None]
          else [Logged (if o_isFatal (fatalError n) then LogError else LogWarn), Callback None])"
      using sendRelay_bounded_retries [of ?h fatalError] by blast
    have "n = 1" by (rule one [OF n(1,2)]) (simp_all add: fatalError_def)
    then show ?thesis using n(3) by (simp add: fatalError_def)
  qed
  have c: "sendRelay ?h declined = [Attempt 1, Logged LogWarn, Callback None]"
  proof -
    obtain n where n: "1 \<le> n"
      "\<forall>k. 1 \<le> k \<and> k < n \<longrightarrow>
            map_option r_ok (o_response (declined k)) \<noteq> Some True \<and>
            o_err (declined k) \<and>
            (o_classify (declined k) = ''NetworkError'' \<or> o_classify (declined k) = ''Timeout'')"
      "sendRelay ?h declined =
         concat (map (\<lambda>k. [Attempt k, SetTimeout (relayAdRetryTime ?h)]) [1..<n]) @
         Attempt n #
         (if map_option r_ok (o_response (declined n)) = Some True then [Callback None]
          else [Logged (if o_isFatal (declined n) then LogError else LogWarn), Callback None])"
      using sendRelay_bounded_retries [of ?h declined] by blast
    have "n = 1" by (rule one [OF n(1,2)]) (simp_all add: declined_def)
    then show ?thesis using n(3) by (simp add: declined_def)
  qed
  have k: "sendRelay ?h networkErrorThenOk =
             [Attempt 1, SetTimeout 1000, Attempt 2, Callback None]"
  proof -
    let ?net = networkErrorThenOk
    obtain n where n: "1 \<le> n"
      "\<forall>k. 1 \<le> k \<and> k < n \<longrightarrow>
            map_option r_ok (o_response (?net k)) \<noteq> Some True \<and>
            o_err (?net k) \<and>
            (o_classify (?net k) = ''NetworkError'' \<or> o_classify (?net k) = ''Timeout'')"
      "map_option r_ok (o_response (?net n)) = Some True \<or>
        \<not> o_err (?net n) \<or>
        (o_classify (?net n) \<noteq> ''NetworkError'' \<and> o_classify (?net n) \<noteq> ''Timeout'') \<or>
        n = maxRelayAdAttempts ?h + 1"
      "sendRelay ?h ?net =
         concat (map (\<lambda>k. [Attempt k, SetTimeout (relayAdRetryTime ?h)]) [1..<n]) @
         Attempt n #
         (if map_option r_ok (o_response (?net n)) = Some True then [Callback None]
          else [Logged (if o_isFatal (?net n) then LogError else LogWarn), Callback None])"
      using sendRelay_bounded_retries [of ?h ?net] by blast
    have "n \<noteq> 1" using n(3) m by (auto simp: networkErrorThenOk_def)
    moreover have "\<not> 2 < n"
    proof
      assume "2 < n"
      then have "1 \<le> (2 :: nat) \<and> 2 < n" by simp
      then have "map_option r_ok (o_response (?net 2)) \<noteq> Some True" using n(2) by blast
      then show False by (simp add: networkErrorThenOk_def)
    qed
    ultimately have "n = 2" using n(1) by auto
    then show ?thesis using n(4) by (simp add: d u2 networkErrorThenOk_def)
  qed
  show ?thesis using a f c k by simp
qed

section \<open>Circuit registry: which subtrees updateServices keeps\<close>

lemma updateServices_loop_map_of:
  "map_of (updateServices_loop isExit ks m) k =
     (if k \<in> set ks \<and> \<not> isExit k then None else map_of m k)"
  by (induction ks arbitrary: m) (auto simp: delete_conv)

text \<open>What the loop does: an entry stays exactly when the ring view answers yes for
  its key, and the keys are the service names with the dollar sign in front.\<close>

lemma updateServices_map_of:
  "map_of (circuitsByServiceName (updateServices isExit self)) k =
     (if isExit k then map_of (circuitsByServiceName self) k else None)"
  by (auto simp: updateServices_def updateServices_loop_map_of map_of_eq_None_iff image_iff)

text \<open>
  Claim C4 at a failing input.  After one request from \<open>bob\<close> to \<open>steve\<close> the registry
  has the single key \<open>$steve\<close>.  On a ring where this router is an exit for \<open>steve\<close>
  (and not for the string \<open>$steve\<close>) \<open>updateServices\<close> drops the subtree of \<open>steve\<close>; on a
  ring where it is an exit for \<open>$steve\<close> and no longer for \<open>steve\<close>, the subtree stays.
\<close>

theorem updateServices_asks_about_prefixed_key:
  "map fst (circuitsByServiceName (snd (getCircuit ''bob'' ''steve'' ''echo'' Circuits))) = [''$steve''] \<and>
   hasCircuitsFor (snd (getCircuit ''bob'' ''steve'' ''echo'' Circuits)) ''steve'' \<and>
   \<not> hasCircuitsFor
       (updateServices (\<lambda>s. s = ''steve'') (snd (getCircuit ''bob'' ''steve'' ''echo'' Circuits)))
       ''steve'' \<and>
   hasCircuitsFor
       (updateServices (\<lambda>s. s = ''$steve'') (snd (getCircuit ''bob'' ''steve'' ''echo'' Circuits)))
       ''steve''"
  by code_simp

section \<open>Discovery: what convertHosts computes\<close>

declare showNat.simps [simp del]

lemma lt10_cases: "n < 10 \<Longrightarrow> n \<in> {0, 1, 2, 3, 4, 5, 6, 7, 8, 9 :: nat}"
  by auto

lemma digit_char: 
  assumes "n < 10"
  shows "isDigit (''0123456789'' ! n)" "digitVal (''0123456789'' ! n) = int n"
     "\<not> isWhiteSpace (''0123456789'' ! n)" "''0123456789'' ! n \<noteq> CHR ''-''" "''0123456789'' ! n \<noteq> CHR ''+''"
     "''0123456789'' ! n \<noteq> CHR ''.''" "''0123456789'' ! n \<noteq> CHR '':''"
  using lt10_cases [OF assms]
  by (auto simp: isDigit_def digitVal_def isWhiteSpace_def)

lemma showNat_digits: "c \<in> set (showNat n) \<Longrightarrow> isDigit c"
proof (induction n arbitrary: c rule: showNat.induct)
  case (1 n)
  show ?case
  proof (cases "n < 10")
    case True
    with 1 show ?thesis by (subst (asm) (2) showNat.simps) (auto simp: digit_char)
  next
    case False
    with 1(2) have "c \<in> set (showNat (n div 10)) \<or> c = ''0123456789'' ! (n mod 10)"
      by (subst (asm) showNat.simps) auto
    then show ?thesis using 1(1) False by (auto simp: digit_char)
  qed
qed

lemma showNat_value: "digitsValue (showNat n) = int n"
proof (induction n rule: showNat.induct)
  case (1 n)
  show ?case
  proof (cases "n < 10")
    case True
    then show ?thesis by (subst showNat.simps) (simp add: digitsValue_def digit_char)
  next
    case False
    have "digitsValue (showNat n) = digitsValue (showNat (n div 10)) * 10 + int (n mod 10)"
      using False by (subst showNat.simps) (simp add: digitsValue_def digit_char)
    then show ?thesis using 1 False by (simp add: zdiv_int zmod_int)
  qed
qed

lemma showNat_hd: "\<exists>c cs. showNat n = c # cs \<and> isDigit c \<and> \<not> isWhiteSpace c \<and> c \<noteq> CHR ''-'' \<and> c \<noteq> CHR ''+''"
proof (induction n rule: showNat.induct)
  case (1 n)
  show ?case
  proof (cases "n < 10")
    case True
    then show ?thesis by (subst showNat.simps) (simp add: digit_char)
  next
    case False
    then obtain c cs where "showNat (n div 10) = c # cs" "isDigit c" "\<not> isWhiteSpace c" "c \<noteq> CHR ''-''" "c \<noteq> CHR ''+''"
      using 1 by blast
    then show ?thesis using False by (subst showNat.simps) simp
  qed
qed

lemma parseInt10_showNat: "parseInt10 (Some (showNat n)) = Some (int n)"
proof -
  obtain c cs where h: "showNat n = c # cs" "isDigit c" "\<not> isWhiteSpace c" "c \<noteq> CHR ''-''" "c \<noteq> CHR ''+''"
    using showNat_hd by blast
  have tw: "takeWhile isDigit (showNat n) = showNat n"
    by (rule takeWhile_eq_all_conv [THEN iffD2]) (auto dest: showNat_digits)
  have tw': "takeWhile isDigit (c # cs) = c # cs" using tw h(1) by simp
  have "parseInt10 (Some (c # cs)) = Some (digitsValue (c # cs))"
    using h(2-) by (simp add: parseInt10_def Let_def tw' del: takeWhile.simps)
  then show ?thesis
    using h(1) showNat_value [of n] by simp
qed

lemma showNat_no_sep: "CHR ''.'' \<notin> set (showNat n)" "CHR '':'' \<notin> set (showNat n)"
  using showNat_digits [of _ n] by (auto simp: isDigit_def)

lemma split_on_none: "c \<notin> set a \<Longrightarrow> split_on c a = [a]"
  by (induction a) auto

lemma split_on_sep: "c \<notin> set a \<Longrightarrow> split_on c (a @ c # rest) = a # split_on c rest"
  by (induction a) auto

lemma sint_word32:
  assumes "0 \<le> x" "x < 2 ^ 32"
  shows "sint (word_of_int x :: 32 word) = (if x < 2 ^ 31 then x else x - 2 ^ 32)"
proof -
  have e: "sint (word_of_int x :: 32 word) = (x + 2147483648) mod 4294967296 - 2147483648"
    by (simp add: int_word_sint)
  show ?thesis
  proof (cases "x < 2 ^ 31")
    case True
    then have "(x + 2147483648) mod 4294967296 = x + 2147483648"
      using assms by (intro mod_pos_pos_trivial) auto
    then show ?thesis using True e by simp
  next
    case False
    have "(x + 2147483648) mod 4294967296 = (x + 2147483648 - 4294967296) mod 4294967296"
      by (metis minus_mod_self2)
    also have "\<dots> = x + 2147483648 - 4294967296"
      using assms False by (intro mod_pos_pos_trivial) auto
    finally show ?thesis using False e by simp
  qed
qed

lemma js_shl_small:
  assumes "int n * 2 ^ k < 2 ^ 32" "k < 32"
  shows "js_shl (Some (int n)) k =
           Some (if int n * 2 ^ k < 2 ^ 31 then int n * 2 ^ k else int n * 2 ^ k - 2 ^ 32)"
proof -
  have "push_bit k (word_of_int (int n) :: 32 word) = word_of_int (int n * 2 ^ k)"
    by (simp add: push_bit_eq_mult)
  then show ?thesis
    using assms sint_word32 [of "int n * 2 ^ k"] by (simp add: js_shl_def toInt32_def)
qed

lemma split_hostPort:
  "split_on CHR '':'' (hostPortString a b c d p) =
     [showNat a @ ''.'' @ showNat b @ ''.'' @ showNat c @ ''.'' @ showNat d, showNat p]"
proof -
  let ?q = "showNat a @ ''.'' @ showNat b @ ''.'' @ showNat c @ ''.'' @ showNat d"
  have "CHR '':'' \<notin> set ?q" using showNat_no_sep(2) by simp
  then have "split_on CHR '':'' (?q @ CHR '':'' # showNat p) = ?q # split_on CHR '':'' (showNat p)"
    by (rule split_on_sep)
  moreover have "split_on CHR '':'' (showNat p) = [showNat p]"
    by (rule split_on_none) (rule showNat_no_sep)
  ultimately show ?thesis by (simp add: hostPortString_def)
qed

lemma split_quad:
  "split_on CHR ''.'' (showNat a @ ''.'' @ showNat b @ ''.'' @ showNat c @ ''.'' @ showNat d) =
     [showNat a, showNat b, showNat c, showNat d]"
proof -
  have s: "split_on CHR ''.'' (showNat x @ CHR ''.'' # rest) = showNat x # split_on CHR ''.'' rest" for x rest
    by (rule split_on_sep) (rule showNat_no_sep)
  have e: "split_on CHR ''.'' (showNat d) = [showNat d]"
    by (rule split_on_none) (rule showNat_no_sep)
  show ?thesis using s e by simp
qed

text \<open>The entry that \<open>convertHosts\<close> builds for a host-port written as four decimal
  octets and a decimal port.\<close>

lemma convertHosts_entry:
  assumes "i < length hosts" "hosts ! i = hostPortString a b c d p"
      and "a < 256" "b < 256" "c < 256" "d < 256"
  shows "convertHosts hosts ! i =
           \<lparr> peer_port = Some (int p),
             peer_ipv4 = Some (if a < 128 then ipv4Unsigned a b c d
                               else ipv4Unsigned a b c d - 2 ^ 32) \<rparr>"
proof -
  have sb: "js_shl (Some (int b)) 16 = Some (int b * 2 ^ 16)"
    using assms(4) js_shl_small [of b 16] by simp
  have sc: "js_shl (Some (int c)) 8 = Some (int c * 2 ^ 8)"
    using assms(5) js_shl_small [of c 8] by simp
  have sa: "js_shl (Some (int a)) 24 =
              Some (if a < 128 then int a * 2 ^ 24 else int a * 2 ^ 24 - 2 ^ 32)"
    using assms(3) js_shl_small [of a 24] by simp
  let ?q = "[showNat a, showNat b, showNat c, showNat d]"
  have n: "nth_opt ?q 0 = Some (showNat a)" "nth_opt ?q 1 = Some (showNat b)"
      "nth_opt ?q 2 = Some (showNat c)" "nth_opt ?q 3 = Some (showNat d)"
      "nth_opt [x, showNat p] 1 = Some (showNat p)" for x :: string
    by (simp_all add: nth_opt_def)
  have ip: "js_add (js_add (js_add (Some (int d)) (Some (int c * 2 ^ 8))) (Some (int b * 2 ^ 16)))
              (Some (if a < 128 then int a * 2 ^ 24 else int a * 2 ^ 24 - 2 ^ 32)) =
            Some (if a < 128 then ipv4Unsigned a b c d else ipv4Unsigned a b c d - 2 ^ 32)"
    by (simp add: js_add_def ipv4Unsigned_def)
  have "convertHost (hostPortString a b c d p) =
           \<lparr> peer_port = Some (int p),
             peer_ipv4 = Some (if a < 128 then ipv4Unsigned a b c d
                               else ipv4Unsigned a b c d - 2 ^ 32) \<rparr>"
    unfolding convertHost_def split_hostPort Let_def list.case split_quad n parseInt10_showNat
      sa sb sc ip ..
  then show ?thesis using assms(1,2) by (simp add: convertHosts_def)
qed


text \<open>
  Claim C9, as amended.  For every host-port \<open>a.b.c.d:p\<close> (decimal octets below 256) in
  the peer set of the service channel, the entry at its place in the result of a local
  discover lookup has the port number as \<open>port\<close>, and as \<open>ipv4\<close> the big-endian value of
  the four octets read as a signed 32-bit integer: the unsigned value when the first
  octet is below 128, and the unsigned value minus \<open>2^32\<close>, a negative number, when the
  first octet is 128 or more.
\<close>

theorem discover_signed_ipv4:
  assumes "u_getDiscoverHosts self serviceName = Peers ps"
      and "i < length ps"
      and "channelPeers self serviceName ! i = hostPortString a b c d p"
      and "a < 256" "b < 256" "c < 256" "d < 256"
  shows "ps ! i =
           \<lparr> peer_port = Some (int p),
             peer_ipv4 = Some (if a < 128 then ipv4Unsigned a b c d
                               else ipv4Unsigned a b c d - 2 ^ 32) \<rparr>"
proof -
  have ps: "ps = convertHosts (channelPeers self serviceName)"
    using assms(1)
    by (auto simp: u_getDiscoverHosts_def channelPeers_def convertHosts_def Let_def
        split: option.splits if_splits)
  then have "i < length (channelPeers self serviceName)"
    using assms(2) by (simp add: convertHosts_def)
  then show ?thesis
    unfolding ps using assms(3-) by (rule convertHosts_entry)
qed

theorem discover_signed_ipv4_witness:
  "u_getDiscoverHosts privateAdvertised ''steve'' =
     Peers [\<lparr> peer_port = Some 80, peer_ipv4 = Some (- 1062731775) \<rparr>]"
proof -
  let ?ps = "convertHosts (channelPeers privateAdvertised ''steve'')"
  have p: "channelPeers privateAdvertised ''steve'' ! 0 = hostPortString 192 168 0 1 80"
    by code_simp
  have g: "u_getDiscoverHosts privateAdvertised ''steve'' = Peers ?ps"
    by code_simp
  have l: "length ?ps = 1"
    by code_simp
  have "?ps ! 0 =
          \<lparr> peer_port = Some (int 80),
            peer_ipv4 = Some (if (192 :: nat) < 128 then ipv4Unsigned 192 168 0 1
                              else ipv4Unsigned 192 168 0 1 - 2 ^ 32) \<rparr>"
    using l by (intro discover_signed_ipv4 [OF g _ p]) simp_all
  then have "?ps ! 0 = \<lparr> peer_port = Some 80, peer_ipv4 = Some (- 1062731775) \<rparr>"
    by (simp add: ipv4Unsigned_def)
  then have "?ps = [\<lparr> peer_port = Some 80, peer_ipv4 = Some (- 1062731775) \<rparr>]"
    using l by (cases ?ps) auto
  then show ?thesis using g by simp
qed

text \<open>Claim C9 as stated fails: for the worker \<open>192.168.0.1:80\<close> the unsigned big-endian
  value is 3232235521, and the entry that discover returns holds -1062731775.\<close>

theorem discover_unsigned_counterexample:
  "channelPeers privateAdvertised ''steve'' = [''192.168.0.1:80''] \<and>
   ipv4Unsigned 192 168 0 1 = 3232235521 \<and>
   u_getDiscoverHosts privateAdvertised ''steve'' =
     Peers [\<lparr> peer_port = Some 80, peer_ipv4 = Some (- 1062731775) \<rparr>]"
  by code_simp

section \<open>The service purger never purges\<close>

lemma servicePurgePeriod_undefined:
  "servicePurgePeriod (ServiceDispatchHandler opts chans ps) = None"
  by (simp add: ServiceDispatchHandler_def)

lemma intervalScan_run_purge:
  "servicePurgePeriod self = None \<Longrightarrow>
   intervalScan_run
     (\<lambda>serviceName refreshed s. (None, maybePurgeEachService now serviceName refreshed s))
     coll self = (None, self)"
  by (induction coll) (auto simp: maybePurgeEachService_def)

text \<open>While \<open>self.servicePurgePeriod\<close> is \<open>undefined\<close>, a tick of the purger changes
  nothing, whatever the time and the timestamps.\<close>

lemma servicePurger_tick_noop:
  "servicePurgePeriod self = None \<Longrightarrow> servicePurger_tick now self = (None, self)"
  by (simp add: servicePurger_tick_def intervalScan_run_purge)

text \<open>
  Claim C1 at a failing input.  The dispatcher is created with the purge period 50 and
  a worker advertises \<open>steve\<close> at time 1.  At time 1000000 the advertisement is far
  older than the purge period, and the purger's tick leaves \<open>exitServices\<close>, the service
  channel and the rate limiter as they were: the period that the test reads was never
  stored.
\<close>

theorem servicePurger_keeps_expired_service:
  "servicePurgerInterval steveAdvertised = 50 \<and>
   servicePurgePeriod steveAdvertised = None \<and>
   exitServices steveAdvertised = [(''steve'', 1)] \<and>
   map fst (subChannels steveAdvertised) = [''steve''] \<and>
   servicePurger_tick 1000000 steveAdvertised = (None, steveAdvertised)"
  by code_simp

section \<open>The routing delegate in the two admission paths\<close>

text \<open>
  Claim C2 at a failing input.  A request from \<open>web\<close> declares \<open>steve\<close> and has the
  routing delegate \<open>delegate\<close>.  With the edge \<open>web~~delegate\<close> blocked, \<open>handleRequest\<close>
  pops the request and \<open>handleLazily\<close> hands it to the relay handler of \<open>delegate\<close>; with
  the edge \<open>web~~steve\<close> blocked it is the other way round.  The block check of the lazy
  path is made with the declared service name.
\<close>

theorem handleLazily_blocks_by_declared_name:
  "fst (handleRequest exitEnv delegatedRequest blockedDelegate) = [PopInReq] \<and>
   fst (snd (handleLazily exitEnv delegatedFrame blockedDelegate)) = [RelayHandleLazily ''delegate''] \<and>
   fst (handleRequest exitEnv delegatedRequest blockedDeclared) = [RelayHandleRequest ''delegate''] \<and>
   fst (snd (handleLazily exitEnv delegatedFrame blockedDeclared)) = [PopInReq]"
  by code_simp

section \<open>Unadvertise while another service holds the peer\<close>

text \<open>
  Claim C3 at a failing input.  The worker \<open>10.0.0.1:4040\<close> has advertised \<open>steve\<close> and
  \<open>bob\<close>, and unadvertises \<open>steve\<close>.  The peer is still in the peer set of the channel of
  \<open>bob\<close>, and \<open>removeServicePeer\<close> starts the closing drain on it all the same: the loop
  that looks for remaining channels compares its counter with the array of keys and
  does not run.
\<close>

theorem removeServicePeer_drains_shared_peer:
  "map fst (subChannels steveBobAdvertised) = [''steve'', ''bob''] \<and>
   channelPeers steveBobAdvertised ''bob'' = [''10.0.0.1:4040''] \<and>
   remainBound exitEnv (map fst (subChannels steveBobAdvertised)) = 0 \<and>
   fst (removeServicePeer exitEnv 2 ''steve'' ''10.0.0.1:4040'' steveBobAdvertised) = None \<and>
   channelPeers (snd (removeServicePeer exitEnv 2 ''steve'' ''10.0.0.1:4040'' steveBobAdvertised))
     ''bob'' = [''10.0.0.1:4040''] \<and>
   map_option draining
     (map_of (peers (snd (removeServicePeer exitEnv 2 ''steve'' ''10.0.0.1:4040''
                            steveBobAdvertised))) ''10.0.0.1:4040'') =
     Some (Some \<lparr> d_goal = DRAIN_GOAL_CLOSE_PEER,
                  d_reason = ''closing due to unadvertisement'',
                  d_direction = ''both'',
                  d_timeout = 30000,
                  d_callback = ThenDeleteIt \<rparr>)"
  by code_simp

section \<open>The peer reaper\<close>

text \<open>
  Claim C10 at two failing inputs, both with partial affinity disabled, so that no
  partial range exists.  First: a worker has advertised a service called \<open>length\<close>, and
  two reap ticks follow.  The second tick passes the object \<open>{length: 1}\<close> to
  \<open>reapSinglePeer\<close>, the loop runs, and the call of \<open>removeWorker\<close> on the missing range
  raises \<open>TypeError\<close>.  Second: \<open>reapSinglePeer\<close> is called with the array \<open>['steve']\<close>
  after the worker of \<open>steve\<close> was rolled over by one tick; it raises the same error.
\<close>

theorem reapSinglePeer_raises_without_partial_range:
  "partialAffinityEnabled lengthAdvertised = False \<and>
   partialRanges lengthAdvertised = [] \<and>
   fst (peerReaper_tick 10 lengthAdvertised) = None \<and>
   fst (peerReaper_tick 20 (snd (peerReaper_tick 10 lengthAdvertised))) =
     Some (TypeError ''Cannot read property removeWorker of undefined'') \<and>
   fst (reapSinglePeer ''10.0.0.1:4040'' (NameArray [''steve'']) 20
          (snd (peerReaper_tick 10 steveAdvertised))) =
     Some (TypeError ''Cannot read property removeWorker of undefined'')"
  by code_simp


lemma deleteIndexEntry_Nil [simp]: "deleteIndexEntry [] keya keyb = []"
  by (simp add: deleteIndexEntry_def)

lemma noPeersSeen_modifyPeer [simp]: "noPeersSeen (modifyPeer hp f s) = noPeersSeen s"
  by (simp add: noPeersSeen_def modifyPeer_def)

lemma noPeersSeen_subPeers_delete [simp]: "noPeersSeen (subPeers_delete n hp s) = noPeersSeen s"
  by (simp add: noPeersSeen_def subPeers_delete_def modifyChannel_def)

lemma noPeersSeen_deletePeerIndex: "noPeersSeen s \<Longrightarrow> noPeersSeen (deletePeerIndex n hp s)"
  by (simp add: noPeersSeen_def deletePeerIndex_def Let_def)

lemma noPeersSeen_partialRanges [simp]:
  "noPeersSeen (s\<lparr> partialRanges := x \<rparr>) = noPeersSeen s"
  by (simp add: noPeersSeen_def)

lemma noPeersSeen_reapService: "noPeersSeen s \<Longrightarrow> noPeersSeen (snd (reapService hp n s))"
proof -
  assume a: "noPeersSeen s"
  define s1 where "s1 = (case map_of (subChannels s) n of None \<Rightarrow> s
                          | Some serviceChannel \<Rightarrow> subPeers_delete n hp s)"
  have "noPeersSeen s1" using a by (simp add: s1_def split: option.splits)
  then have "noPeersSeen (deletePeerIndex n hp s1)" by (rule noPeersSeen_deletePeerIndex)
  then show ?thesis
    unfolding reapService_def Let_def s1_def [symmetric] by (simp split: option.splits)
qed

lemma noPeersSeen_reapLoop: "noPeersSeen s \<Longrightarrow> noPeersSeen (snd (reapLoop hp names is s))"
proof (induction "is" arbitrary: s)
  case Nil
  then show ?case by simp
next
  case (Cons i "is")
  have "noPeersSeen (snd (reapService hp (reapName names i) s))"
    using Cons.prems by (rule noPeersSeen_reapService)
  then show ?case
    using Cons.IH [of "snd (reapService hp (reapName names i) s)"]
    by (auto split: prod.splits option.splits)
qed

lemma noPeersSeen_reapSinglePeer:
  "noPeersSeen s \<Longrightarrow> noPeersSeen (snd (reapSinglePeer hp names now s))"
proof -
  assume a: "noPeersSeen s"
  have l: "noPeersSeen (snd (reapLoop hp names js s1))" if "noPeersSeen s1" for js s1
    using that by (rule noPeersSeen_reapLoop)
  have m: "noPeersSeen s2" if "reapLoop hp names js s1 = (r, s2)" "noPeersSeen s1" for js s1 r s2
    using l [OF that(2), of js] that(1) by simp
  show ?thesis
    using a by (auto simp: reapSinglePeer_def split: option.splits prod.splits if_splits dest!: m)
qed

lemma noPeersSeen_scan:
  "noPeersSeen s \<Longrightarrow>
   noPeersSeen (snd (intervalScan_run (\<lambda>hp level. reapSinglePeer hp (LevelObject level) now) coll s))"
proof (induction coll arbitrary: s)
  case Nil
  then show ?case by simp
next
  case (Cons kv coll)
  obtain k v where kv: "kv = (k, v)" by (cases kv)
  have "noPeersSeen (snd (reapSinglePeer k (LevelObject v) now s))"
    using Cons.prems by (rule noPeersSeen_reapSinglePeer)
  then show ?case
    using Cons.IH [of "snd (reapSinglePeer k (LevelObject v) now s)"] kv
    by (auto split: prod.splits option.splits)
qed

lemma noPeersSeen_after_tick:
  "knownPeers s = [] \<Longrightarrow> noPeersSeen (snd (peerReaper_tick now s))"
  unfolding peerReaper_tick_def Let_def
  by (rule noPeersSeen_scan) (simp add: noPeersSeen_def)

lemma peerReaper_tick_idle:
  "noPeersSeen s \<Longrightarrow> peerReaper_tick now s = (None, s)"
  by (simp add: peerReaper_tick_def noPeersSeen_def)




lemma knownPeers_reapService:
  "knownPeers s = [] \<Longrightarrow> knownPeers (snd (reapService hp n s)) = []"
  by (simp add: reapService_def deletePeerIndex_def subPeers_delete_def modifyChannel_def Let_def
      split: option.splits)

lemma knownPeers_reapLoop:
  "knownPeers s = [] \<Longrightarrow> knownPeers (snd (reapLoop hp names js s)) = []"
proof (induction js arbitrary: s)
  case Nil
  then show ?case by simp
next
  case (Cons j js)
  obtain r s1 where rs: "reapService hp (reapName names j) s = (r, s1)"
    by (cases "reapService hp (reapName names j) s")
  then have "knownPeers s1 = []"
    using knownPeers_reapService [OF Cons.prems, of hp "reapName names j"] by simp
  then show ?case
    using Cons.IH [of s1] rs by (cases r) simp_all
qed

lemma knownPeers_reapSinglePeer:
  "knownPeers s = [] \<Longrightarrow> knownPeers (snd (reapSinglePeer hp names now s)) = []"
proof -
  assume a: "knownPeers s = []"
  have m: "knownPeers s2 = []" if "reapLoop hp names js s1 = (r, s2)" "knownPeers s1 = []"
    for js s1 r s2
    using knownPeers_reapLoop [OF that(2), of hp names js] that(1) by simp
  show ?thesis
    using a
    by (auto simp: reapSinglePeer_def modifyPeer_def
        split: option.splits prod.splits if_splits dest!: m)
qed

text \<open>Every reap tick ends with an empty \<open>knownPeers\<close>, so any tick that follows another
  with no advertise in between starts from an idle window.\<close>

lemma knownPeers_after_tick: "knownPeers (snd (peerReaper_tick now s)) = []"
proof -
  have "knownPeers s' = [] \<Longrightarrow>
        knownPeers (snd (intervalScan_run
                      (\<lambda>hp level. reapSinglePeer hp (LevelObject level) now) coll s')) = []"
    for coll s'
  proof (induction coll arbitrary: s')
    case Nil
    then show ?case by simp
  next
    case (Cons kv coll)
    obtain k v where kv: "kv = (k, v)" by (cases kv)
    obtain r s1 where rs: "reapSinglePeer k (LevelObject v) now s' = (r, s1)"
      by (cases "reapSinglePeer k (LevelObject v) now s'")
    then have "knownPeers s1 = []"
      using knownPeers_reapSinglePeer [OF Cons.prems, of k "LevelObject v" now] by simp
    then show ?case
      using Cons.IH [of s1] rs kv by (cases r) simp_all
  qed
  then show ?thesis by (simp add: peerReaper_tick_def Let_def)
qed

text \<open>Hence a third consecutive reap tick never raises and never changes the state.\<close>

lemma reap_thrice:
  "peerReaper_tick now3 (snd (peerReaper_tick now2 (snd (peerReaper_tick now1 s)))) =
     (None, snd (peerReaper_tick now2 (snd (peerReaper_tick now1 s))))"
  by (intro peerReaper_tick_idle noPeersSeen_after_tick knownPeers_after_tick)

section \<open>Membership reconciliation sets every service channel's mode\<close>

lemma channelModes_modifyChannel:
  "(\<And>ch. serviceProxyMode (f ch) = serviceProxyMode ch) \<Longrightarrow>
   channelModes (modifyChannel n f s) = channelModes s"
  by (auto simp: channelModes_def modifyChannel_def map_of_map_entry fun_eq_iff split: option.splits)

lemma channelModes_setMode:
  "channelModes (modifyChannel n (\<lambda>ch. ch\<lparr> serviceProxyMode := Some m \<rparr>) s) =
     (\<lambda>x. if x = n \<and> channelModes s n \<noteq> None then Some (Some m) else channelModes s x)"
  by (auto simp: channelModes_def modifyChannel_def map_of_map_entry fun_eq_iff split: option.splits)

lemma channelModes_modifyPeer [simp]: "channelModes (modifyPeer hp f s) = channelModes s"
  by (simp add: channelModes_def modifyPeer_def fun_eq_iff)

lemma channelModes_fields [simp]:
  "channelModes (s\<lparr> peers := a \<rparr>) = channelModes s"
  "channelModes (s\<lparr> relaysFor := b \<rparr>) = channelModes s"
  "channelModes (s\<lparr> partialRanges := c \<rparr>) = channelModes s"
  "channelModes (s\<lparr> connectedServicePeers := d \<rparr>) = channelModes s"
  "channelModes (s\<lparr> connectedPeerServices := d' \<rparr>) = channelModes s"
  "channelModes (s\<lparr> peersToPrune := f \<rparr>) = channelModes s"
  "channelModes (s\<lparr> roleTransitions := g \<rparr>) = channelModes s"
  "channelModes (s\<lparr> circuits := h \<rparr>) = channelModes s"
  by (simp_all add: channelModes_def fun_eq_iff)

lemma channelModes_subPeers [simp]:
  "channelModes (subPeers_add n hp s) = channelModes s"
  "channelModes (subPeers_delete n hp s) = channelModes s"
  "channelModes (subPeers_clear n s) = channelModes s"
  by (simp_all add: subPeers_add_def subPeers_delete_def subPeers_clear_def channelModes_modifyChannel)

lemma channelModes_u_getServicePeer [simp]:
  "channelModes (u_getServicePeer n hp s) = channelModes s"
  by (simp add: u_getServicePeer_def)

lemma channelModes_ensurePeerConnected [simp]:
  "channelModes (ensurePeerConnected n hp now s) = channelModes s"
  by (simp add: ensurePeerConnected_def Let_def)

lemma channelModes_ensurePeerDisconnected [simp]:
  "channelModes (ensurePeerDisconnected n hp why now s) = channelModes s"
  by (simp add: ensurePeerDisconnected_def Let_def split: option.splits list.splits)

lemma channelModes_fold:
  "(\<And>x s. channelModes (f x s) = channelModes s) \<Longrightarrow> channelModes (fold f xs s) = channelModes s"
  by (induction xs arbitrary: s) simp_all

lemma getOrCreate_existing:
  "channelModes s n \<noteq> None \<Longrightarrow> getOrCreateServiceChannel e n s = s"
  by (auto simp: getOrCreateServiceChannel_def channelModes_def split: option.splits)

lemma channelModes_getPartialRange:
  "channelModes s n \<noteq> None \<Longrightarrow> channelModes (snd (getPartialRange e n s)) = channelModes s"
  by (simp add: getPartialRange_def getOrCreate_existing Let_def split: option.splits)

lemma channelModes_ensurePartialConnections:
  assumes "channelModes s n \<noteq> None"
  shows "channelModes (snd (ensurePartialConnections e n now s)) = channelModes s"
proof -
  obtain r s1 where g: "getPartialRange e n s = (r, s1)" by (cases "getPartialRange e n s")
  have s1: "channelModes s1 = channelModes s"
    using channelModes_getPartialRange [OF assms, of e] g by simp
  show ?thesis
  proof (cases r)
    case None
    then show ?thesis using g s1 by (simp add: ensurePartialConnections_def)
  next
    case (Some pr)
    then show ?thesis
      using g s1 by (simp add: ensurePartialConnections_def Let_def channelModes_fold)
  qed
qed

lemma channelModes_changeToExit:
  "channelModes (changeToExit n s) =
     (\<lambda>x. if x = n \<and> channelModes s n \<noteq> None then Some (Some Exit) else channelModes s x)"
  by (simp add: changeToExit_def Let_def channelModes_setMode)

lemma channelModes_changeToForward:
  "channelModes (changeToForward exitNames n now s) =
     (\<lambda>x. if x = n \<and> channelModes s n \<noteq> None then Some (Some Forward) else channelModes s x)"
  by (simp add: changeToForward_def Let_def channelModes_setMode channelModes_fold)

lemma channelModes_updateExitNodes [simp]:
  "channelModes (updateExitNodes exitNames n s) = channelModes s"
  by (simp add: updateExitNodes_def Let_def channelModes_fold)

lemma channelModes_updateServiceNodes:
  "channelModes s n \<noteq> None \<Longrightarrow> channelModes (updateServiceNodes e n now s) = channelModes s"
  by (simp add: updateServiceNodes_def channelModes_ensurePartialConnections)

lemma channelMode_channelModes:
  "channelMode s n = (case channelModes s n of None \<Rightarrow> None | Some m \<Rightarrow> m)"
  by (simp add: channelMode_def channelModes_def split: option.splits)

lemma channelModes_updateServiceChannel:
  assumes "channelModes s n = Some (Some m)"
  shows "channelModes (updateServiceChannel e n now s) = (channelModes s)(n \<mapsto> Some (targetMode e n))"
proof -
  define s1 where "s1 = s\<lparr> relaysFor := AList.update n (sort (egress_exitsFor e n)) (relaysFor s) \<rparr>"
  have c1: "channelModes s1 = channelModes s" by (simp add: s1_def)
  show ?thesis
  proof (cases "egress_isExitFor e n")
    case True
    define s2 where "s2 = (if partialAffinityEnabled s1
                         then s1\<lparr> partialRanges :=
                                 AList.map_entry n
                                   (pr_compute (Some (sort (egress_exitsFor e n))) None)
                                   (partialRanges s1) \<rparr>
                         else s1)"
    have c2: "channelModes s2 = channelModes s" by (simp add: s2_def c1)
    have u: "updateServiceChannel e n now s =
               (if channelMode s2 n = Some Forward then changeToExit n s2
                else updateServiceNodes e n now s2)"
      using True by (simp add: updateServiceChannel_def Let_def s1_def s2_def)
    show ?thesis
    proof (cases "m = Forward")
      case True
      then have "channelMode s2 n = Some Forward"
        using assms c2 by (simp add: channelMode_channelModes)
      then show ?thesis
        using u assms c2 \<open>egress_isExitFor e n\<close>
        by (auto simp: channelModes_changeToExit targetMode_def fun_eq_iff)
    next
      case False
      then have m: "m = Exit" by (cases m) auto
      then have "channelMode s2 n \<noteq> Some Forward"
        using assms c2 by (simp add: channelMode_channelModes)
      moreover have "channelModes s2 n \<noteq> None" using assms c2 by simp
      ultimately show ?thesis
        using u assms c2 m \<open>egress_isExitFor e n\<close>
        by (auto simp: channelModes_updateServiceNodes targetMode_def fun_eq_iff)
    qed
  next
    case False
    define s2 where "s2 = (if partialAffinityEnabled s1
                         then s1\<lparr> partialRanges := AList.delete n (partialRanges s1) \<rparr>
                         else s1)"
    have c2: "channelModes s2 = channelModes s" by (simp add: s2_def c1)
    have u: "updateServiceChannel e n now s =
               (if channelMode s2 n = Some Exit then changeToForward (egress_exitsFor e n) n now s2
                else updateExitNodes (egress_exitsFor e n) n s2)"
      using False by (simp add: updateServiceChannel_def Let_def s1_def s2_def)
    show ?thesis
    proof (cases "m = Exit")
      case True
      then have "channelMode s2 n = Some Exit"
        using assms c2 by (simp add: channelMode_channelModes)
      then show ?thesis
        using u assms c2 \<open>\<not> egress_isExitFor e n\<close>
        by (auto simp: channelModes_changeToForward targetMode_def fun_eq_iff)
    next
      case False
      then have m: "m = Forward" by (cases m) auto
      then have "channelMode s2 n \<noteq> Some Exit"
        using assms c2 by (simp add: channelMode_channelModes)
      then show ?thesis
        using u assms c2 m \<open>\<not> egress_isExitFor e n\<close>
        by (auto simp: targetMode_def fun_eq_iff)
    qed
  qed
qed

lemma channelModes_step:
  "channelModes (updateServiceChannels_step e now n s) =
     (\<lambda>x. if x = n \<and> (\<exists>m. channelModes s n = Some (Some m)) then Some (Some (targetMode e n))
          else channelModes s x)"
proof (cases "\<exists>m. channelModes s n = Some (Some m)")
  case True
  then obtain m where m: "channelModes s n = Some (Some m)" by blast
  then obtain ch where ch: "map_of (subChannels s) n = Some ch" "serviceProxyMode ch = Some m"
    by (auto simp: channelModes_def)
  then have "updateServiceChannels_step e now n s = updateServiceChannel e n now s"
    by (simp add: updateServiceChannels_step_def)
  then show ?thesis using channelModes_updateServiceChannel [OF m, of e now] m by (auto simp: fun_eq_iff)
next
  case False
  then have "updateServiceChannels_step e now n s = s"
    by (auto simp: updateServiceChannels_step_def channelModes_def split: option.splits)
  then show ?thesis using False by (auto simp: fun_eq_iff)
qed

lemma channelModes_steps:
  "channelModes (fold (updateServiceChannels_step e now) names s) =
     (\<lambda>x. if x \<in> set names \<and> (\<exists>m. channelModes s x = Some (Some m))
          then Some (Some (targetMode e x)) else channelModes s x)"
proof (induction names arbitrary: s)
  case Nil
  then show ?case by simp
next
  case (Cons n names)
  show ?case
    by (auto simp add: Cons.IH channelModes_step fun_eq_iff)
qed

lemma channelModes_updateServiceChannels:
  "channelModes (updateServiceChannels e now s) =
     (\<lambda>x. if \<exists>m. channelModes s x = Some (Some m) then Some (Some (targetMode e x))
          else channelModes s x)"
proof -
  have k: "x \<in> set (map fst (subChannels s))" if "channelModes s x = Some (Some m)" for x m
    using that by (auto simp: channelModes_def dest!: map_of_SomeD) force
  show ?thesis
    unfolding updateServiceChannels_def Let_def
    by (auto simp: channelModes_steps fun_eq_iff split: option.splits dest: k)
qed

text \<open>
  Claim C6.  After \<open>updateServiceChannels\<close>, every service channel that was known before
  (a sub-channel with a mode, whichever mode) is still there and has the mode \<open>exit\<close> if
  the ring view's \<open>isExitFor\<close> holds for its service and \<open>forward\<close> otherwise; and every
  sub-channel that has a mode afterwards has that mode.
\<close>

theorem updateServiceChannels_modes:
  "(\<forall>ch m. map_of (subChannels self) serviceName = Some ch \<and> serviceProxyMode ch = Some m \<longrightarrow>
      (\<exists>ch'. map_of (subChannels (updateServiceChannels e now self)) serviceName = Some ch' \<and>
             serviceProxyMode ch' = Some (if egress_isExitFor e serviceName then Exit else Forward))) \<and>
   (\<forall>ch' m'. map_of (subChannels (updateServiceChannels e now self)) serviceName = Some ch' \<and>
       serviceProxyMode ch' = Some m' \<longrightarrow>
         m' = (if egress_isExitFor e serviceName then Exit else Forward))"
proof -
  have c: "channelModes (updateServiceChannels e now self) serviceName =
             (if \<exists>m. channelModes self serviceName = Some (Some m)
              then Some (Some (targetMode e serviceName)) else channelModes self serviceName)"
    by (simp add: channelModes_updateServiceChannels)
  show ?thesis
  proof (intro conjI allI impI)
    fix ch m
    assume "map_of (subChannels self) serviceName = Some ch \<and> serviceProxyMode ch = Some m"
    then have "channelModes self serviceName = Some (Some m)"
      by (simp add: channelModes_def)
    then have "channelModes (updateServiceChannels e now self) serviceName =
                 Some (Some (targetMode e serviceName))"
      using c by simp
    then show "\<exists>ch'. map_of (subChannels (updateServiceChannels e now self)) serviceName = Some ch' \<and>
             serviceProxyMode ch' = Some (if egress_isExitFor e serviceName then Exit else Forward)"
      by (auto simp: channelModes_def targetMode_def)
  next
    fix ch' m'
    assume "map_of (subChannels (updateServiceChannels e now self)) serviceName = Some ch' \<and>
       serviceProxyMode ch' = Some m'"
    then have a: "channelModes (updateServiceChannels e now self) serviceName = Some (Some m')"
      by (simp add: channelModes_def)
    show "m' = (if egress_isExitFor e serviceName then Exit else Forward)"
    proof (cases "\<exists>m. channelModes self serviceName = Some (Some m)")
      case True
      then show ?thesis using a c by (simp add: targetMode_def)
    next
      case False
      then show ?thesis using a c by simp
    qed
  qed
qed

theorem updateServiceChannels_modes_witness:
  "channelMode mixedChannels ''steve'' = Some Forward \<and>
   channelMode mixedChannels ''bob'' = Some Exit \<and>
   channelMode (updateServiceChannels steveOnlyEnv 5 mixedChannels) ''steve'' = Some Exit \<and>
   channelMode (updateServiceChannels steveOnlyEnv 5 mixedChannels) ''bob'' = Some Forward"
proof -
  have before: "channelMode mixedChannels ''steve'' = Some Forward"
      "channelMode mixedChannels ''bob'' = Some Exit"
    by code_simp+
  have ex: "egress_isExitFor steveOnlyEnv ''steve''" "\<not> egress_isExitFor steveOnlyEnv ''bob''"
    by code_simp+
  have "\<exists>ch'. map_of (subChannels (updateServiceChannels steveOnlyEnv 5 mixedChannels)) ''steve'' = Some ch' \<and>
             serviceProxyMode ch' = Some Exit"
    using updateServiceChannels_modes [of mixedChannels "''steve''" steveOnlyEnv 5] before(1) ex(1)
    by (auto simp: channelMode_def split: option.splits)
  moreover have "\<exists>ch'. map_of (subChannels (updateServiceChannels steveOnlyEnv 5 mixedChannels)) ''bob'' = Some ch' \<and>
             serviceProxyMode ch' = Some Forward"
    using updateServiceChannels_modes [of mixedChannels "''bob''" steveOnlyEnv 5] before(2) ex(2)
    by (auto simp: channelMode_def split: option.splits)
  ultimately show ?thesis using before by (auto simp: channelMode_def)
qed

section \<open>Rate limiting in request admission\<close>


lemma rateLimiter_u_getServicePeer [simp]:
  "rateLimiter (u_getServicePeer n hp s) = rateLimiter s"
  by (simp add: u_getServicePeer_def modifyPeer_def subPeers_add_def modifyChannel_def)

lemma rateLimiter_fold_u_getServicePeer [simp]:
  "rateLimiter (fold (u_getServicePeer n) hps s) = rateLimiter s"
  by (induction hps arbitrary: s) simp_all

lemma rateLimiter_getOrCreateServiceChannel [simp]:
  "rateLimiter (getOrCreateServiceChannel e n s) = rateLimiter s"
  by (simp add: getOrCreateServiceChannel_def createServiceChannel_def Let_def split: option.splits)






text \<open>On the lazy path a kill-switched frame is always popped.\<close>

lemma handleLazily_killswitch:
  assumes "rateLimiterEnabled self" and "lf_service reqFrame = Some serviceName"
      and "serviceName \<noteq> []" and "lf_headers reqFrame = Some (rd, Some cn)" and "cn \<noteq> []"
      and "\<not> isBlocked self (Some cn) (Some serviceName)"
      and "rateLimit e (Some cn)
             (case nonEmpty rd of Some d \<Rightarrow> d | None \<Rightarrow> serviceName) self =
             (RATE_LIMIT_KILLSWITCH, self1)"
  shows "handleLazily e reqFrame self = (ReturnTrue, [PopInReq], self1)"
  using assms by (simp add: handleLazily_def nonEmpty_def Let_def)

section \<open>No operation stores the purge period\<close>

text \<open>The field \<open>servicePurgePeriod\<close>, \<open>undefined\<close> after the constructor, is changed by
  none of: advertise, unadvertise, membership reconciliation, the two request paths and
  the reaper's tick.  With \<open>servicePurger_tick_noop\<close>, the purger removes no service in
  any state that these operations reach.\<close>

lemma spp_modify [simp]:
  "servicePurgePeriod (modifyPeer hp f s) = servicePurgePeriod s"
  "servicePurgePeriod (modifyChannel n g s) = servicePurgePeriod s"
  by (simp_all add: modifyPeer_def modifyChannel_def)

lemma spp_subPeers [simp]:
  "servicePurgePeriod (subPeers_add n hp s) = servicePurgePeriod s"
  "servicePurgePeriod (subPeers_delete n hp s) = servicePurgePeriod s"
  "servicePurgePeriod (subPeers_clear n s) = servicePurgePeriod s"
  by (simp_all add: subPeers_add_def subPeers_delete_def subPeers_clear_def)

lemma spp_u_getServicePeer [simp]:
  "servicePurgePeriod (u_getServicePeer n hp s) = servicePurgePeriod s"
  by (simp add: u_getServicePeer_def)

lemma spp_fold:
  "(\<And>x s. servicePurgePeriod (f x s) = servicePurgePeriod s) \<Longrightarrow>
   servicePurgePeriod (fold f xs s) = servicePurgePeriod s"
  by (induction xs arbitrary: s) simp_all

lemma spp_getOrCreate [simp]:
  "servicePurgePeriod (getOrCreateServiceChannel e n s) = servicePurgePeriod s"
  by (simp add: getOrCreateServiceChannel_def createServiceChannel_def Let_def spp_fold
      split: option.splits)

lemma spp_ensurePeerConnected [simp]:
  "servicePurgePeriod (ensurePeerConnected n hp now s) = servicePurgePeriod s"
  by (simp add: ensurePeerConnected_def Let_def)

lemma spp_ensurePeerDisconnected [simp]:
  "servicePurgePeriod (ensurePeerDisconnected n hp why now s) = servicePurgePeriod s"
  by (simp add: ensurePeerDisconnected_def Let_def split: option.splits list.splits)

lemma spp_getPartialRange [simp]:
  "servicePurgePeriod (snd (getPartialRange e n s)) = servicePurgePeriod s"
  by (simp add: getPartialRange_def Let_def split: option.splits)

lemma spp_ensurePartialConnections [simp]:
  "servicePurgePeriod (snd (ensurePartialConnections e n now s)) = servicePurgePeriod s"
proof -
  obtain r s1 where g: "getPartialRange e n s = (r, s1)" by (cases "getPartialRange e n s")
  have "servicePurgePeriod s1 = servicePurgePeriod s"
    using spp_getPartialRange [of e n s] g by simp
  then show ?thesis
    using g by (cases r) (simp_all add: ensurePartialConnections_def Let_def spp_fold)
qed

lemma spp_freshenPartialPeer [simp]:
  "servicePurgePeriod (freshenPartialPeer e hp n now s) = servicePurgePeriod s"
proof -
  have "servicePurgePeriod (snd (getPartialRange e n s')) = servicePurgePeriod s'" for s'
    by simp
  then have k: "getPartialRange e n s' = (r, s'') \<Longrightarrow> servicePurgePeriod s'' = servicePurgePeriod s'"
    for s' r s''
    by (metis snd_conv)
  show ?thesis
    by (auto simp: freshenPartialPeer_def Let_def split: prod.splits dest!: k)
qed

lemma spp_refreshServicePeerPartially [simp]:
  "servicePurgePeriod (refreshServicePeerPartially e n hp now s) = servicePurgePeriod s"
proof -
  have k: "ensurePartialConnections e n now s' = (r, s'') \<Longrightarrow>
           servicePurgePeriod s'' = servicePurgePeriod s'" for s' r s''
    using spp_ensurePartialConnections [of e n now s'] by simp
  show ?thesis
    by (auto simp: refreshServicePeerPartially_def Let_def split: prod.splits option.splits
        dest!: k)
qed

lemma spp_refreshServicePeer:
  "servicePurgePeriod (refreshServicePeer e now n hp s) = servicePurgePeriod s"
  by (simp add: refreshServicePeer_def getServicePeer_def Let_def)

lemma spp_removeServicePeer:
  "servicePurgePeriod (snd (removeServicePeer e now n hp s)) = servicePurgePeriod s"
proof (cases "map_of (subChannels s) n")
  case None
  then show ?thesis by (simp add: removeServicePeer_def)
next
  case (Some serviceChannel)
  note ch = this
  show ?thesis
  proof (cases "map_of (peers s) hp")
    case None
    then show ?thesis using ch by (simp add: removeServicePeer_def)
  next
    case (Some peer0)
    define s1 where "s1 = subPeers_delete n hp s"
    define sa where "sa = s1\<lparr> partialRanges :=
                                   AList.map_entry n
                                     (pr_compute None (Some (sort (channelPeers s1 n))))
                                     (partialRanges s1) \<rparr>"
    define s2 where "s2 =
                 (if partialAffinityEnabled s1
                  then
                    (case ensurePartialConnections e n now sa of (result, sb) \<Rightarrow>
                       (case result of
                           None \<Rightarrow> sb
                         | Some r \<Rightarrow>
                             if noop r
                             then sb\<lparr> connectedServicePeers :=
                                     deleteIndexEntry (connectedServicePeers sb) n hp,
                                   connectedPeerServices :=
                                     deleteIndexEntry (connectedPeerServices sb) hp n \<rparr>
                             else sb))
                  else s1)"
    have p1: "servicePurgePeriod s1 = servicePurgePeriod s" by (simp add: s1_def)
    have pa: "servicePurgePeriod sa = servicePurgePeriod s" by (simp add: sa_def p1)
    obtain result sb where eb: "ensurePartialConnections e n now sa = (result, sb)"
      by (cases "ensurePartialConnections e n now sa")
    have pb: "servicePurgePeriod sb = servicePurgePeriod s"
      using spp_ensurePartialConnections [of e n now sa] eb pa by simp
    have p2: "servicePurgePeriod s2 = servicePurgePeriod s"
      using p1 pb eb by (simp add: s2_def split: option.splits)
    have "snd (removeServicePeer e now n hp s) = s2 \<or>
          (\<exists>f. snd (removeServicePeer e now n hp s) = modifyPeer hp f s2)"
      using ch Some
      unfolding removeServicePeer_def Let_def s1_def [symmetric] sa_def [symmetric]
        s2_def [symmetric]
      by (simp split: sum.splits option.splits) blast
    then show ?thesis using p2 by auto
  qed
qed

lemma spp_updateServiceChannel [simp]:
  "servicePurgePeriod (updateServiceChannel e n now s) = servicePurgePeriod s"
  by (simp add: updateServiceChannel_def changeToExit_def changeToForward_def
      updateServiceNodes_def updateExitNodes_def Let_def spp_fold)

lemma spp_updateServiceChannels:
  "servicePurgePeriod (updateServiceChannels e now s) = servicePurgePeriod s"
proof -
  have "servicePurgePeriod (updateServiceChannels_step e now n s') = servicePurgePeriod s'" for n s'
    by (simp add: updateServiceChannels_step_def split: option.splits)
  then show ?thesis
    by (simp add: updateServiceChannels_def Let_def spp_fold split: option.splits)
qed

lemma spp_handleRequest:
  "servicePurgePeriod (snd (handleRequest e req s)) = servicePurgePeriod s"
  by (auto simp: handleRequest_def rateLimit_def Let_def split: prod.splits)

lemma spp_handleLazily:
  "servicePurgePeriod (snd (snd (handleLazily e reqFrame s))) = servicePurgePeriod s"
  by (auto simp: handleLazily_def rateLimit_def Let_def split: prod.splits option.splits)

lemma spp_reapService [simp]:
  "servicePurgePeriod (snd (reapService hp n s)) = servicePurgePeriod s"
  by (simp add: reapService_def deletePeerIndex_def Let_def split: option.splits)

lemma spp_reapLoop [simp]:
  "servicePurgePeriod (snd (reapLoop hp names js s)) = servicePurgePeriod s"
proof (induction js arbitrary: s)
  case Nil
  then show ?case by simp
next
  case (Cons j js)
  obtain r s1 where rs: "reapService hp (reapName names j) s = (r, s1)"
    by (cases "reapService hp (reapName names j) s")
  then have "servicePurgePeriod s1 = servicePurgePeriod s"
    using spp_reapService [of hp "reapName names j" s] by simp
  then show ?case
    using Cons [of s1] rs by (cases r) simp_all
qed

lemma spp_reapSinglePeer [simp]:
  "servicePurgePeriod (snd (reapSinglePeer hp names now s)) = servicePurgePeriod s"
proof -
  have k: "reapLoop hp names js s' = (r, s'') \<Longrightarrow> servicePurgePeriod s'' = servicePurgePeriod s'"
    for js s' r s''
    using spp_reapLoop [of hp names js s'] by simp
  show ?thesis
    by (auto simp: reapSinglePeer_def split: option.splits prod.splits if_splits dest!: k)
qed

lemma spp_peerReaper_tick:
  "servicePurgePeriod (snd (peerReaper_tick now s)) = servicePurgePeriod s"
proof -
  have "servicePurgePeriod
          (snd (intervalScan_run (\<lambda>hp level. reapSinglePeer hp (LevelObject level) now) coll s')) =
        servicePurgePeriod s'" for coll s'
  proof (induction coll arbitrary: s')
    case Nil
    then show ?case by simp
  next
    case (Cons kv coll)
    obtain k v where kv: "kv = (k, v)" by (cases kv)
    obtain r s1 where rs: "reapSinglePeer k (LevelObject v) now s' = (r, s1)"
      by (cases "reapSinglePeer k (LevelObject v) now s'")
    then have "servicePurgePeriod s1 = servicePurgePeriod s'"
      using spp_reapSinglePeer [of k "LevelObject v" now s'] by simp
    then show ?case
      using Cons [of s1] rs kv by (cases r) simp_all
  qed
  then show ?thesis by (simp add: peerReaper_tick_def Let_def)
qed

end
